theory Spec2Isabelle
  imports Complex_Main "HOL-Library.List_Lexorder" "HOL-Library.Char_ord"
begin

text \<open>
  A shallow embedding of the two source files of the repository: \<open>util.py\<close>, which
  flattens a dictionary of arrays into one vector per particle and back, and \<open>stein.py\<close>,
  the class \<open>SVGD\<close> with its force calculator \<open>_svgd_loss_and_grads\<close> and the methods
  \<open>init\<close>, \<open>get_params\<close>, \<open>update\<close> and \<open>evaluate\<close>.  Exceptions are values, the object's
  mutable fields are threaded explicitly, and the libraries the repository calls (array
  dtypes, random keys, tracing, transforms, the optimizer, differentiation) are
  parameters.  The definitions come first, the properties after them.
\<close>

section \<open>Errors and results\<close>

text \<open>
  Every Python exception of the modelled code is a value of \<open>error\<close>; a computation that
  may raise returns \<open>error + 'a\<close> with \<open>Inl\<close> for the exception.  \<open>bindE\<close> sequences two
  such computations and \<open>mapE\<close> is a list comprehension whose body may raise: the first
  exception ends it.
\<close>

datatype error =
    ShapeError    \<comment> \<open>reshape / concatenate on incompatible shapes\<close>
  | SliceError    \<comment> \<open>slice larger than the sliced axis, or no such axis\<close>
  | TypeError     \<comment> \<open>calling or testing membership in \<open>None\<close>, non-scalar gradient\<close>
  | UnpackError   \<comment> \<open>tuple unpacking with the wrong number of values\<close>
  | AssertionError
  | BatchError    \<comment> \<open>\<open>vmap\<close> over arguments whose mapped axes disagree\<close>

definition bindE :: "error + 'a \<Rightarrow> ('a \<Rightarrow> error + 'b) \<Rightarrow> error + 'b" where
  "bindE m f = (case m of Inl e \<Rightarrow> Inl e | Inr v \<Rightarrow> f v)"

fun mapE :: "('a \<Rightarrow> error + 'b) \<Rightarrow> 'a list \<Rightarrow> error + 'b list" where
  "mapE f [] = Inr []"
| "mapE f (x # xs) =
     (case f x of
        Inl e \<Rightarrow> Inl e
      | Inr y \<Rightarrow> (case mapE f xs of Inl e \<Rightarrow> Inl e | Inr ys \<Rightarrow> Inr (y # ys)))"

section \<open>Arrays\<close>

text \<open>
  An array of the numeric library is its shape, its dtype (the dtype's name) and its
  elements in row-major order.  Elements are real numbers: the arithmetic of the modelled
  code is read over the reals, and what a dtype does to a value is the cast of the
  numeric environment below.
\<close>

record tensor =
  shape :: "nat list"
  dtype :: string
  data :: "real list"

definition wf_tensor :: "tensor \<Rightarrow> bool" where
  "wf_tensor t = (length (data t) = prod_list (shape t))"

text \<open>
  The numeric library's dtype rules are not part of the repository; they are parameters:
  \<open>canonicalize_dtype\<close>, the dtype \<open>concatenate\<close> gives its result (\<open>result_type\<close>), and
  what a cast to a dtype does to a value (\<open>cast\<close>).
\<close>

record np_env =
  canonicalize_dtype :: "string \<Rightarrow> string"
  result_type :: "string list \<Rightarrow> string"
  cast :: "string \<Rightarrow> real \<Rightarrow> real"

definition astype :: "np_env \<Rightarrow> tensor \<Rightarrow> string \<Rightarrow> tensor" where
  "astype env t d = t\<lparr>dtype := d, data := map (cast env d) (data t)\<rparr>"

text \<open>\<open>np.reshape(x, newshape)\<close> with every dimension given.\<close>

definition reshape :: "tensor \<Rightarrow> nat list \<Rightarrow> error + tensor" where
  "reshape x newshape =
     (if prod_list newshape = length (data x) then Inr (x\<lparr>shape := newshape\<rparr>)
      else Inl ShapeError)"

text \<open>
  \<open>np.reshape(x, (*pre, -1))\<close>: the last dimension is the size divided by the product of
  the others, which raises when that product is zero; the reshape then checks the sizes.
\<close>

definition reshape_infer :: "tensor \<Rightarrow> nat list \<Rightarrow> error + tensor" where
  "reshape_infer x pre =
     (if prod_list pre = 0 then Inl ShapeError
      else reshape x (pre @ [length (data x) div prod_list pre]))"

text \<open>Signed 32-bit wrap-around: \<open>np.prod(..., dtype='int32')\<close> and the cumulative sum of
  such values are computed modulo \<open>2^32\<close>.\<close>

definition wrap32 :: "int \<Rightarrow> int" where
  "wrap32 n = (n + 2147483648) mod 4294967296 - 2147483648"

definition prod32 :: "nat list \<Rightarrow> int" where
  "prod32 ds = wrap32 (int (prod_list ds))"

fun cumsum32_from :: "int \<Rightarrow> int list \<Rightarrow> int list" where
  "cumsum32_from acc [] = []"
| "cumsum32_from acc (x # xs) = wrap32 (acc + x) # cumsum32_from (wrap32 (acc + x)) xs"

definition cumsum32 :: "int list \<Rightarrow> int list" where
  "cumsum32 xs = cumsum32_from 0 xs"

text \<open>\<open>chunks k n xs\<close>: the first \<open>k\<close> consecutive blocks of \<open>n\<close> elements of \<open>xs\<close>.\<close>

fun chunks :: "nat \<Rightarrow> nat \<Rightarrow> 'a list \<Rightarrow> 'a list list" where
  "chunks 0 n xs = []"
| "chunks (Suc k) n xs = take n xs # chunks k n (drop n xs)"

text \<open>
  \<open>lax.dynamic_slice_in_dim(arr, start_index, slice_size, axis)\<close>: a slice of negative
  size or larger than the axis raises; a negative start index counts from the end of the
  axis (the axis length is added to it), and the start index is then clamped so that the
  slice lies inside the array (\<open>clamp_start\<close>).
\<close>

definition clamp_start :: "int \<Rightarrow> int \<Rightarrow> nat \<Rightarrow> nat" where
  "clamp_start start_index slice_size axis_size =
     nat (max 0 (min (if start_index < 0 then start_index + int axis_size else start_index)
                     (int axis_size - slice_size)))"

definition dynamic_slice_in_dim :: "tensor \<Rightarrow> int \<Rightarrow> int \<Rightarrow> nat \<Rightarrow> error + tensor" where
  "dynamic_slice_in_dim arr start_index slice_size axis =
     (if length (shape arr) \<le> axis then Inl SliceError
      else
        let dim = shape arr ! axis in
        if slice_size < 0 \<or> int dim < slice_size then Inl SliceError
        else
          let n = nat slice_size;
              s = clamp_start start_index slice_size dim;
              inner = prod_list (drop (Suc axis) (shape arr));
              outer = prod_list (take axis (shape arr))
          in Inr \<lparr>shape = (shape arr)[axis := n], dtype = dtype arr,
                  data = concat (map (\<lambda>blk. take (n * inner) (drop (s * inner) blk))
                                     (chunks outer (dim * inner) (data arr)))\<rparr>)"

text \<open>
  \<open>np.concatenate(ts, axis=-1)\<close> of a non-empty list: the arrays have one rank, at least
  one, and agree on every axis but the last; row by row the arrays' rows are joined.
\<close>

definition row_of :: "tensor \<Rightarrow> nat \<Rightarrow> real list" where
  "row_of t r = take (last (shape t)) (drop (r * last (shape t)) (data t))"

definition concatenate :: "np_env \<Rightarrow> tensor list \<Rightarrow> error + tensor" where
  "concatenate env ts =
     (case ts of
        [] \<Rightarrow> Inl ShapeError
      | t # _ \<Rightarrow>
          if shape t = [] \<or> (\<exists>u \<in> set ts. shape u = [] \<or> butlast (shape u) \<noteq> butlast (shape t))
          then Inl ShapeError
          else
            let d = result_type env (map dtype ts) in
            Inr \<lparr>shape = butlast (shape t) @ [sum_list (map (\<lambda>u. last (shape u)) ts)],
                 dtype = d,
                 data = map (cast env d)
                          (concat (map (\<lambda>r. concat (map (\<lambda>u. row_of u r) ts))
                                       [0 ..< prod_list (butlast (shape t))]))\<rparr>)"

section \<open>util.py: the vector raveler\<close>

record pytree_metadata =
  m_flat :: tensor
  m_shape :: "nat list"
  m_event_size :: int
  m_dtype :: string

definition leaf_metadata :: "np_env \<Rightarrow> nat \<Rightarrow> tensor \<Rightarrow> error + pytree_metadata" where
  "leaf_metadata env batch_dims l =
     bindE (reshape_infer l (take batch_dims (shape l)))
       (\<lambda>f. Inr \<lparr>m_flat = f, m_shape = shape l,
                 m_event_size = prod32 (drop batch_dims (shape l)),
                 m_dtype = canonicalize_dtype env (dtype l)\<rparr>)"

definition unravel_leaf ::
  "np_env \<Rightarrow> tensor \<Rightarrow> nat \<Rightarrow> nat list \<Rightarrow> int \<Rightarrow> pytree_metadata \<Rightarrow> error + tensor" where
  "unravel_leaf env arr axis newshape start m =
     bindE (dynamic_slice_in_dim arr start (m_event_size m) axis)
       (\<lambda>s. bindE (reshape s newshape) (\<lambda>r. Inr (astype env r (m_dtype m))))"

definition unravel_list ::
  "np_env \<Rightarrow> nat \<Rightarrow> pytree_metadata list \<Rightarrow> int list \<Rightarrow> tensor \<Rightarrow> error + tensor list" where
  "unravel_list env batch_dims leaves_metadata leaves_idx arr =
     mapE (\<lambda>(i, m). unravel_leaf env arr 0 (drop batch_dims (m_shape m)) (leaves_idx ! i) m)
          (enumerate 0 leaves_metadata)"

definition unravel_list_batched ::
  "np_env \<Rightarrow> nat \<Rightarrow> pytree_metadata list \<Rightarrow> int list \<Rightarrow> tensor \<Rightarrow> error + tensor list" where
  "unravel_list_batched env batch_dims leaves_metadata leaves_idx arr =
     mapE (\<lambda>(i, m). unravel_leaf env arr batch_dims (m_shape m) (leaves_idx ! i) m)
          (enumerate 0 leaves_metadata)"

text \<open>
  \<open>_ravel_list\<close> returns the flat array and two closures; the closures' captured variables
  (\<open>leaves_metadata\<close>, \<open>leaves_idx\<close>) are returned in their place, and \<open>unravel_list\<close>,
  \<open>unravel_list_batched\<close> above take them as arguments.  \<open>np.array([])\<close> is the empty
  vector of the default float dtype.
\<close>

definition empty_array :: tensor where
  "empty_array = \<lparr>shape = [0], dtype = ''float32'', data = []\<rparr>"

definition ravel_list ::
  "np_env \<Rightarrow> nat \<Rightarrow> tensor list \<Rightarrow> error + (tensor \<times> pytree_metadata list \<times> int list)" where
  "ravel_list env batch_dims leaves =
     bindE (mapE (leaf_metadata env batch_dims) leaves)
       (\<lambda>leaves_metadata.
          let leaves_idx = cumsum32 (0 # map m_event_size leaves_metadata) in
          bindE (if leaves_metadata \<noteq> [] then concatenate env (map m_flat leaves_metadata)
                 else Inr empty_array)
            (\<lambda>flat. Inr (flat, leaves_metadata, leaves_idx)))"

text \<open>
  A pytree here is a dictionary of arrays, an association list with distinct keys.
  \<open>tree_flatten\<close> lists a dictionary's values in the order of its sorted keys and keeps the
  keys as the tree definition; \<open>tree_unflatten\<close> pairs them again.
\<close>

type_synonym pytree = "(string \<times> tensor) list"

definition tree_flatten :: "pytree \<Rightarrow> tensor list \<times> string list" where
  "tree_flatten pytree = (let s = sort_key fst pytree in (map snd s, map fst s))"

definition tree_unflatten :: "string list \<Rightarrow> tensor list \<Rightarrow> error + pytree" where
  "tree_unflatten treedef leaves =
     (if length treedef = length leaves then Inr (zip treedef leaves) else Inl ShapeError)"

record raveled =
  r_flat :: tensor
  r_treedef :: "string list"
  r_batch_dims :: nat
  r_metadata :: "pytree_metadata list"
  r_idx :: "int list"

definition ravel_pytree :: "np_env \<Rightarrow> pytree \<Rightarrow> nat \<Rightarrow> error + raveled" where
  "ravel_pytree env pytree batch_dims =
     (let (leaves, treedef) = tree_flatten pytree in
      bindE (ravel_list env batch_dims leaves)
        (\<lambda>(flat, ms, idx). Inr \<lparr>r_flat = flat, r_treedef = treedef,
                                r_batch_dims = batch_dims, r_metadata = ms, r_idx = idx\<rparr>))"

definition unravel_pytree :: "np_env \<Rightarrow> raveled \<Rightarrow> tensor \<Rightarrow> error + pytree" where
  "unravel_pytree env rv arr =
     bindE (unravel_list env (r_batch_dims rv) (r_metadata rv) (r_idx rv) arr)
       (tree_unflatten (r_treedef rv))"

definition unravel_pytree_batched :: "np_env \<Rightarrow> raveled \<Rightarrow> tensor \<Rightarrow> error + pytree" where
  "unravel_pytree_batched env rv arr =
     bindE (unravel_list_batched env (r_batch_dims rv) (r_metadata rv) (r_idx rv) arr)
       (tree_unflatten (r_treedef rv))"

section \<open>stein.py: Stein variational gradient descent\<close>

subsection \<open>Dictionaries\<close>

text \<open>
  \<open>d[k] = v\<close> on a dictionary kept as an association list, \<open>{**a, **b}\<close>, and
  \<open>tree_map\<close> over a dictionary of arrays.
\<close>

fun dict_set :: "string \<Rightarrow> 'v \<Rightarrow> (string \<times> 'v) list \<Rightarrow> (string \<times> 'v) list" where
  "dict_set k v [] = [(k, v)]"
| "dict_set k v (p # ps) = (if fst p = k then (k, v) # ps else p # dict_set k v ps)"

definition dict_merge :: "(string \<times> 'v) list \<Rightarrow> (string \<times> 'v) list \<Rightarrow> (string \<times> 'v) list" where
  "dict_merge a b = foldl (\<lambda>d (k, v). dict_set k v d) a b"

definition tree_map :: "(tensor \<Rightarrow> tensor) \<Rightarrow> pytree \<Rightarrow> pytree" where
  "tree_map f pytree = (let (leaves, treedef) = tree_flatten pytree in zip treedef (map f leaves))"

definition neg :: "tensor \<Rightarrow> tensor" where
  "neg x = x\<lparr>data := map uminus (data x)\<rparr>"

subsection \<open>The environment\<close>

text \<open>
  A parameter site of a trace: its name, its type (\<open>'param'\<close>, \<open>'sample'\<close>, ...), its value
  and the \<open>constraint\<close> entry of its keyword arguments when there is one.  A trace is the
  list of its sites in order; it is keyed by the sites' names.
\<close>

record site =
  site_name :: string
  site_type :: string
  site_value :: tensor
  site_constraint :: "string option"

record transform =
  t_call :: "tensor \<Rightarrow> tensor"
  t_inv :: "tensor \<Rightarrow> tensor"

text \<open>
  What the repository calls and does not define is a parameter: key splitting, tracing
  the seeded model and guide, the guide's particle initialiser (which leaves the guide's
  \<open>init_params\<close>), the transform library, the joint log-density of the model replayed on
  the guide's trace (lines 54 to 58 of \<open>single_particle_ljp\<close>, given the two seeds), the
  optimizer, the kernel factory, \<open>np.mean\<close> of a list of values (of no values it is the
  library's \<open>nan\<close>, which is no real number: what \<open>np.mean\<close> returns is left to the
  environment), and differentiation: the gradient of a function of a vector, of a
  function of an array, and, leaf by leaf, of a function of a dictionary.
\<close>

record ('k, 'o, 'a) stein_env =
  np :: np_env
  split :: "'k \<Rightarrow> nat \<Rightarrow> 'k list"
  get_trace_model :: "'k \<Rightarrow> 'a \<Rightarrow> error + site list"
  get_trace_guide :: "'k \<Rightarrow> 'a \<Rightarrow> error + site list"
  find_params :: "'k \<Rightarrow> 'a \<Rightarrow> error + (string \<Rightarrow> tensor option)"
  biject_to :: "string \<Rightarrow> transform"
  transform_fn :: "(string \<times> transform) list \<Rightarrow> pytree \<Rightarrow> pytree"
  model_log_density :: "'k \<Rightarrow> 'k \<Rightarrow> 'a \<Rightarrow> pytree \<Rightarrow> error + real"
  optim_init :: "pytree \<Rightarrow> 'o"
  optim_get_params :: "'o \<Rightarrow> pytree"
  optim_update :: "pytree \<Rightarrow> 'o \<Rightarrow> error + 'o"
  log_kernel_fn :: "tensor \<Rightarrow> real list \<Rightarrow> real list \<Rightarrow> real"
  np_mean :: "real list \<Rightarrow> real"
  grad_vector :: "(real list \<Rightarrow> real) \<Rightarrow> real list \<Rightarrow> real list"
  grad_array :: "(tensor \<Rightarrow> error + tensor) \<Rightarrow> tensor \<Rightarrow> tensor"
  grad_leaves :: "(pytree \<Rightarrow> error + tensor) \<Rightarrow> pytree \<Rightarrow> tensor list"

text \<open>
  \<open>jax.value_and_grad(f)(x)\<close> evaluates \<open>f\<close> at \<open>x\<close> and returns that value with the
  gradient; \<open>jax.grad(f)(x)\<close> for a dictionary \<open>x\<close> returns a dictionary of the structure
  of \<open>x\<close>.  An exception raised by \<open>f\<close> is raised by the call.  Both require \<open>f\<close> to
  return a scalar, an array of shape \<open>()\<close>: for a value of any other shape they raise
  (\<open>Gradient only defined for scalar-output functions\<close>).
\<close>

definition value_and_grad ::
  "('k, 'o, 'a) stein_env \<Rightarrow> (tensor \<Rightarrow> error + tensor) \<Rightarrow> tensor \<Rightarrow> error + tensor \<times> tensor" where
  "value_and_grad env f x =
     bindE (f x) (\<lambda>v. if shape v \<noteq> [] then Inl TypeError
                       else Inr (v, grad_array env f x))"

definition jax_grad ::
  "('k, 'o, 'a) stein_env \<Rightarrow> (pytree \<Rightarrow> error + tensor) \<Rightarrow> pytree \<Rightarrow> error + pytree" where
  "jax_grad env f x =
     bindE (f x) (\<lambda>v. if shape v \<noteq> [] then Inl TypeError
                       else let (leaves, treedef) = tree_flatten x in
                            tree_unflatten treedef (grad_leaves env f x))"

subsection \<open>Vectorisation\<close>

text \<open>
  \<open>jax.vmap\<close> maps over axis 0 of its arguments: \<open>rows\<close> lists an array's entries along
  axis 0 (an array of rank 0 has none to map over), \<open>particle_params n\<close> gives the
  dictionary seen by each of \<open>n\<close> particles, and \<open>stack\<close> gathers results of one shape.
\<close>

definition rows :: "tensor \<Rightarrow> error + tensor list" where
  "rows t =
     (case shape t of
        [] \<Rightarrow> Inl BatchError
      | n # rest \<Rightarrow>
          Inr (map (\<lambda>i. \<lparr>shape = rest, dtype = dtype t,
                          data = take (prod_list rest) (drop (i * prod_list rest) (data t))\<rparr>)
                   [0 ..< n]))"

definition particle_params :: "nat \<Rightarrow> pytree \<Rightarrow> error + pytree list" where
  "particle_params n gps =
     bindE (mapE (\<lambda>(k, t). bindE (rows t)
                    (\<lambda>rs. if length rs = n then Inr (k, rs) else Inl BatchError)) gps)
       (\<lambda>krs. Inr (map (\<lambda>i. map (\<lambda>(k, rs). (k, rs ! i)) krs) [0 ..< n]))"

definition stack :: "nat list \<Rightarrow> string \<Rightarrow> real list list \<Rightarrow> tensor" where
  "stack row_shape d rs = \<lparr>shape = length rs # row_shape, dtype = d, data = concat rs\<rparr>"

definition scale :: "real \<Rightarrow> real list \<Rightarrow> real list" where
  "scale c v = map (\<lambda>a. c * a) v"

definition vadd :: "real list \<Rightarrow> real list \<Rightarrow> real list" where
  "vadd u v = map2 (+) u v"

text \<open>\<open>np.sum(vs, axis=0)\<close> of a stack of vectors of length \<open>m\<close>.\<close>

definition vsum :: "nat \<Rightarrow> real list list \<Rightarrow> real list" where
  "vsum m vs = foldr vadd vs (replicate m 0)"

text \<open>\<open>a + b\<close> on arrays of one shape (the library broadcasts other shapes; the model
  raises there).\<close>

definition tensor_add :: "tensor \<Rightarrow> tensor \<Rightarrow> error + tensor" where
  "tensor_add a b =
     (if shape a = shape b
      then Inr \<lparr>shape = shape a, dtype = dtype a, data = vadd (data a) (data b)\<rparr>
      else Inl ShapeError)"

subsection \<open>The SVGD object\<close>

text \<open>
  The fields of \<open>SVGD\<close> that the methods read as data.  The model, the guide, the
  optimizer, the kernel factory and the static keyword arguments are callables or opaque
  and live in the environment.  \<open>None\<close> is \<open>None\<close>.
\<close>

record svgd =
  num_stein_particles :: nat
  num_loss_particles :: nat
  guide_param_names :: "string set option"
  constrain_fn :: "(pytree \<Rightarrow> pytree) option"

text \<open>\<open>SVGDState\<close>, with fields \<open>optim_state\<close> and \<open>rng_key\<close>.\<close>

record ('o, 'k) svgd_state =
  state_optim_state :: 'o
  state_rng_key :: 'k

text \<open>\<open>__init__\<close>: the assertion on the guide's class, then the fields.\<close>

definition svgd_new :: "bool \<Rightarrow> nat \<Rightarrow> nat \<Rightarrow> error + svgd" where
  "svgd_new guide_is_autodelta n_stein n_loss =
     (if \<not> guide_is_autodelta then Inl AssertionError
      else Inr \<lparr>num_stein_particles = n_stein, num_loss_particles = n_loss,
                guide_param_names = None, constrain_fn = None\<rparr>)"

text \<open>Calling \<open>self.constrain_fn\<close>: calling \<open>None\<close> raises.\<close>

definition call_constrain_fn :: "svgd \<Rightarrow> pytree \<Rightarrow> error + pytree" where
  "call_constrain_fn self params =
     (case constrain_fn self of None \<Rightarrow> Inl TypeError | Some c \<Rightarrow> Inr (c params))"

text \<open>
  Lines 45 and 46: the two dictionary comprehensions.  The membership test in
  \<open>self.guide_param_names\<close> is evaluated once per item, and raises when the field is
  \<open>None\<close>.
\<close>

definition split_params :: "svgd \<Rightarrow> pytree \<Rightarrow> error + pytree \<times> pytree" where
  "split_params self unconstr_params =
     (case guide_param_names self of
        None \<Rightarrow> (if unconstr_params = [] then Inr ([], []) else Inl TypeError)
      | Some names \<Rightarrow>
          Inr (filter (\<lambda>(p, v). p \<notin> names) unconstr_params,
               filter (\<lambda>(p, v). p \<in> names) unconstr_params))"

definition single_particle_ljp ::
  "('k, 'o, 'a) stein_env \<Rightarrow> 'a \<Rightarrow> pytree \<Rightarrow> 'k \<Rightarrow> error + real" where
  "single_particle_ljp env args params rng_key =
     (case split env rng_key 2 of
        [model_seed, guide_seed] \<Rightarrow> model_log_density env model_seed guide_seed args params
      | _ \<Rightarrow> Inl UnpackError)"

definition log_joint_prob ::
  "('k, 'o, 'a) stein_env \<Rightarrow> svgd \<Rightarrow> 'a \<Rightarrow> 'k \<Rightarrow> pytree \<Rightarrow> pytree \<Rightarrow> error + real" where
  "log_joint_prob env self args rng_key model_params guide_params =
     (let params = dict_merge model_params guide_params in
      if num_loss_particles self = 1 then single_particle_ljp env args params rng_key
      else
        let rng_keys = split env rng_key (num_loss_particles self) in
        bindE (mapE (single_particle_ljp env args params) rng_keys) (\<lambda>vs. Inr (np_mean env vs)))"

definition jfp_fn ::
  "('k, 'o, 'a) stein_env \<Rightarrow> svgd \<Rightarrow> 'a \<Rightarrow> 'k list \<Rightarrow> pytree \<Rightarrow> pytree \<Rightarrow> error + tensor" where
  "jfp_fn env self args rks mps gps =
     bindE (particle_params (length rks) gps)
       (\<lambda>ps. bindE (mapE (\<lambda>(rk, gp). log_joint_prob env self args rk mps gp) (zip rks ps))
          (\<lambda>vs. Inr \<lparr>shape = [length rks], dtype = ''float32'', data = vs\<rparr>))"

text \<open>Lines 73 to 75: the attractive and the repulsive force, and their sum.\<close>

definition attractive_force ::
  "(real list \<Rightarrow> real list \<Rightarrow> real) \<Rightarrow> tensor \<Rightarrow> tensor \<Rightarrow> error + tensor" where
  "attractive_force log_kernel guide_particles particle_ljp_grads =
     bindE (rows guide_particles) (\<lambda>xs.
     bindE (rows particle_ljp_grads) (\<lambda>gs.
       if length xs \<noteq> length gs then Inl BatchError
       else Inr (stack (tl (shape particle_ljp_grads)) (dtype particle_ljp_grads)
              (map (\<lambda>(x, x_ljp_grad).
                      vsum (length (data x_ljp_grad))
                        (map (\<lambda>y. scale (log_kernel (data x) (data y)) (data x_ljp_grad)) xs))
                   (zip xs gs)))))"

definition repulsive_force ::
  "('k, 'o, 'a) stein_env \<Rightarrow> (real list \<Rightarrow> real list \<Rightarrow> real) \<Rightarrow> tensor \<Rightarrow> error + tensor" where
  "repulsive_force env log_kernel guide_particles =
     bindE (rows guide_particles) (\<lambda>xs.
       Inr (stack (tl (shape guide_particles)) (dtype guide_particles)
              (map (\<lambda>x. vsum (length (data x))
                           (map (\<lambda>y. grad_vector env (log_kernel (data x)) (data y)) xs))
                   xs)))"

definition particle_grads ::
  "('k, 'o, 'a) stein_env \<Rightarrow> (real list \<Rightarrow> real list \<Rightarrow> real) \<Rightarrow> tensor \<Rightarrow> tensor \<Rightarrow> error + tensor" where
  "particle_grads env log_kernel guide_particles particle_ljp_grads =
     bindE (attractive_force log_kernel guide_particles particle_ljp_grads) (\<lambda>a.
     bindE (repulsive_force env log_kernel guide_particles) (\<lambda>r. tensor_add a r))"

text \<open>
  Lines 49 to 80, given the two names that line 48 binds: the matrix of particles and
  the unravel function.  The arguments of \<open>jfp_fn\<close> on line 68 are evaluated from left
  to right.
\<close>

definition loss_and_grads_body ::
  "('k, 'o, 'a) stein_env \<Rightarrow> svgd \<Rightarrow> 'k \<Rightarrow> pytree \<Rightarrow> pytree \<Rightarrow> tensor \<Rightarrow>
   (tensor \<Rightarrow> error + pytree) \<Rightarrow> 'a \<Rightarrow> error + tensor \<times> pytree" where
  "loss_and_grads_body env self rng_key model_uparams guide_uparams guide_particles unravel args =
     (let rng_keys = split env rng_key (num_stein_particles self) in
      bindE (value_and_grad env
               (\<lambda>ps. bindE (call_constrain_fn self model_uparams) (\<lambda>mps.
                      bindE (unravel ps) (\<lambda>g.
                      bindE (call_constrain_fn self g) (\<lambda>gps.
                        jfp_fn env self args rng_keys mps gps))))
               guide_particles) (\<lambda>(loss, particle_ljp_grads).
      bindE (jax_grad env
               (\<lambda>mps. bindE (call_constrain_fn self mps) (\<lambda>m.
                       bindE (call_constrain_fn self guide_uparams) (\<lambda>g.
                         jfp_fn env self args rng_keys m g)))
               model_uparams) (\<lambda>model_param_grads.
      let log_kernel = log_kernel_fn env guide_particles in
      bindE (particle_grads env log_kernel guide_particles particle_ljp_grads) (\<lambda>forces.
      bindE (unravel forces) (\<lambda>guide_param_grads.
        Inr (neg loss, tree_map neg (dict_merge model_param_grads guide_param_grads)))))))"

text \<open>
  Line 48.  \<open>stein.py\<close> imports \<open>ravel_pytree\<close> from \<open>..util\<close>; the repository's function
  of that name is the one of \<open>util.py\<close> above, which ends by returning a tuple of three
  values: the flat array and the two unravel functions (\<open>ravel_pytree_result\<close>).  Line 48
  unpacks the returned tuple into two names, which raises for a tuple of any other
  length; the first name is then used as an array and the second is called.
\<close>

datatype py_value = Array tensor | Function "tensor \<Rightarrow> error + pytree"

definition ravel_pytree_result :: "np_env \<Rightarrow> raveled \<Rightarrow> py_value list" where
  "ravel_pytree_result env rv =
     [Array (r_flat rv), Function (unravel_pytree env rv), Function (unravel_pytree_batched env rv)]"

definition svgd_loss_and_grads ::
  "('k, 'o, 'a) stein_env \<Rightarrow> svgd \<Rightarrow> 'k \<Rightarrow> pytree \<Rightarrow> 'a \<Rightarrow> error + tensor \<times> pytree" where
  "svgd_loss_and_grads env self rng_key unconstr_params args =
     bindE (split_params self unconstr_params) (\<lambda>(model_uparams, guide_uparams).
     bindE (ravel_pytree (np env) guide_uparams 1) (\<lambda>rv.
       case ravel_pytree_result (np env) rv of
         [guide_particles, unravel] \<Rightarrow>
           (case (guide_particles, unravel) of
              (Array particles, Function unravel_fn) \<Rightarrow>
                loss_and_grads_body env self rng_key model_uparams guide_uparams
                  particles unravel_fn args
            | _ \<Rightarrow> Inl TypeError)
       | _ \<Rightarrow> Inl UnpackError))"

subsection \<open>init\<close>

text \<open>
  The body of the loop of \<open>init\<close> (lines 104 to 111) as a step on the three
  accumulators \<open>params\<close>, \<open>inv_transforms\<close> and \<open>guide_param_names\<close> (here \<open>names\<close>).  \<open>set.update\<close> with
  a string adds the string's characters, each as a string of length one.
\<close>

definition set_update :: "string set \<Rightarrow> string \<Rightarrow> string set" where
  "set_update s name = s \<union> set (map (\<lambda>c. [c]) name)"

definition init_site ::
  "('k, 'o, 'a) stein_env \<Rightarrow> (string \<Rightarrow> tensor option) \<Rightarrow> site list \<Rightarrow>
   pytree \<times> (string \<times> transform) list \<times> string set \<Rightarrow> site \<Rightarrow>
   pytree \<times> (string \<times> transform) list \<times> string set" where
  "init_site env init_params model_trace acc site =
     (case acc of (params, inv_transforms, names) \<Rightarrow>
        if site_type site = ''param'' then
          let constraint = (case site_constraint site of None \<Rightarrow> ''real'' | Some c \<Rightarrow> c);
              transform = biject_to env constraint;
              inv_transforms' = dict_set (site_name site) transform inv_transforms;
              pval = (case init_params (site_name site) of
                        None \<Rightarrow> site_value site | Some v \<Rightarrow> v);
              params' = dict_set (site_name site) (t_inv transform pval) params;
              names' =
                (if site_name site \<notin> set (map site_name model_trace)
                 then set_update names (site_name site)
                 else names)
          in (params', inv_transforms', names')
        else acc)"

definition init ::
  "('k, 'o, 'a) stein_env \<Rightarrow> svgd \<Rightarrow> 'k \<Rightarrow> 'a \<Rightarrow> error + svgd \<times> ('o, 'k) svgd_state" where
  "init env self rng_key args =
     (case split env rng_key 3 of
        [rng_key1, model_seed, guide_seed] \<Rightarrow>
          bindE (get_trace_guide env guide_seed args) (\<lambda>guide_trace.
          bindE (get_trace_model env model_seed args) (\<lambda>model_trace.
            case split env rng_key1 (1 + num_stein_particles self) of
              [rng_key2, particle_seeds] \<Rightarrow>
                bindE (find_params env particle_seeds args) (\<lambda>init_params.
                  case foldl (init_site env init_params model_trace) ([], [], {})
                         (model_trace @ guide_trace) of
                    (params, inv_transforms, names) \<Rightarrow>
                      Inr (self\<lparr>guide_param_names := Some names,
                                constrain_fn := Some (transform_fn env inv_transforms)\<rparr>,
                           \<lparr>state_optim_state = optim_init env params,
                            state_rng_key = rng_key2\<rparr>))
            | _ \<Rightarrow> Inl UnpackError))
      | _ \<Rightarrow> Inl UnpackError)"

subsection \<open>get_params, update, evaluate\<close>

definition get_params ::
  "('k, 'o, 'a) stein_env \<Rightarrow> svgd \<Rightarrow> ('o, 'k) svgd_state \<Rightarrow> error + pytree" where
  "get_params env self state =
     call_constrain_fn self (optim_get_params env (state_optim_state state))"

text \<open>
  Lines 135 and 136 of \<open>update\<close>: the key carried forward, and the key and the
  parameters that line 137 passes to \<open>_svgd_loss_and_grads\<close>.
\<close>

definition update_arguments ::
  "('k, 'o, 'a) stein_env \<Rightarrow> ('o, 'k) svgd_state \<Rightarrow> error + 'k \<times> 'k \<times> pytree" where
  "update_arguments env state =
     (case split env (state_rng_key state) 2 of
        [rng_key', rng_key_step] \<Rightarrow>
          let params = optim_get_params env (state_optim_state state) in
          Inr (rng_key', rng_key_step, params)
      | _ \<Rightarrow> Inl UnpackError)"

definition update ::
  "('k, 'o, 'a) stein_env \<Rightarrow> svgd \<Rightarrow> ('o, 'k) svgd_state \<Rightarrow> 'a \<Rightarrow>
   error + ('o, 'k) svgd_state \<times> tensor" where
  "update env self state args =
     bindE (update_arguments env state) (\<lambda>(rng_key', rng_key_step, params).
     bindE (svgd_loss_and_grads env self rng_key_step params args) (\<lambda>(loss_val, grads).
     bindE (optim_update env grads (state_optim_state state)) (\<lambda>optim_state'.
       Inr (\<lparr>state_optim_state = optim_state', state_rng_key = rng_key'\<rparr>, loss_val))))"

text \<open>
  Lines 152 and 153 of \<open>evaluate\<close>: the key and the parameters that line 154 passes to
  \<open>_svgd_loss_and_grads\<close>.
\<close>

definition evaluate_arguments ::
  "('k, 'o, 'a) stein_env \<Rightarrow> svgd \<Rightarrow> ('o, 'k) svgd_state \<Rightarrow> error + 'k \<times> pytree" where
  "evaluate_arguments env self state =
     (case split env (state_rng_key state) 2 of
        [_, rng_key_eval] \<Rightarrow>
          bindE (get_params env self state) (\<lambda>params. Inr (rng_key_eval, params))
      | _ \<Rightarrow> Inl UnpackError)"

definition evaluate ::
  "('k, 'o, 'a) stein_env \<Rightarrow> svgd \<Rightarrow> ('o, 'k) svgd_state \<Rightarrow> 'a \<Rightarrow> error + tensor" where
  "evaluate env self state args =
     bindE (evaluate_arguments env self state) (\<lambda>(rng_key_eval, params).
     bindE (svgd_loss_and_grads env self rng_key_eval params args) (\<lambda>(loss_val, _).
       Inr loss_val))"





section \<open>Auxiliary definitions for the proofs\<close>

text \<open>The metadata \<open>leaf_metadata\<close> records for a well-formed leaf, in closed form.\<close>

definition meta_of :: "np_env \<Rightarrow> nat \<Rightarrow> tensor \<Rightarrow> pytree_metadata" where
  "meta_of env batch_dims l =
     \<lparr>m_flat = l\<lparr>shape := take batch_dims (shape l) @ [prod_list (drop batch_dims (shape l))]\<rparr>,
      m_shape = shape l,
      m_event_size = prod32 (drop batch_dims (shape l)),
      m_dtype = canonicalize_dtype env (dtype l)\<rparr>"

text \<open>
  A numeric environment for arrays that share one dtype: no dtype is changed by
  canonicalisation, a concatenation has the dtype of its first argument, and no cast
  changes a value.  The concrete inputs below are evaluated in it.
\<close>

definition plain_env :: np_env where
  "plain_env = \<lparr>canonicalize_dtype = (\<lambda>d. d),
                 result_type = (\<lambda>ds. case ds of [] \<Rightarrow> ''float32'' | d # _ \<Rightarrow> d),
                 cast = (\<lambda>d v. v)\<rparr>"

definition vec2 :: tensor where
  "vec2 = \<lparr>shape = [2], dtype = ''float32'', data = [1, 2]\<rparr>"

definition short1 :: tensor where
  "short1 = \<lparr>shape = [1], dtype = ''float32'', data = [7]\<rparr>"

text \<open>
  A dictionary of these two vectors and its raveling without batch axes (the flat array
  \<open>(1, 2, 7)\<close>, offsets 0 and 2, total 3), and two arrays of other lengths than 3.
\<close>

definition pair_tree :: pytree where
  "pair_tree = [(''b'', short1), (''a'', vec2)]"

definition flat3 :: tensor where
  "flat3 = \<lparr>shape = [3], dtype = ''float32'', data = [1, 2, 7]\<rparr>"

definition pair_raveled :: raveled where
  "pair_raveled = \<lparr>r_flat = flat3, r_treedef = [''a'', ''b''], r_batch_dims = 0,
     r_metadata = [\<lparr>m_flat = vec2, m_shape = [2], m_event_size = 2, m_dtype = ''float32''\<rparr>,
                   \<lparr>m_flat = short1, m_shape = [1], m_event_size = 1, m_dtype = ''float32''\<rparr>],
     r_idx = [0, 2, 3]\<rparr>"

definition long4 :: tensor where
  "long4 = \<lparr>shape = [4], dtype = ''float32'', data = [10, 20, 30, 40]\<rparr>"

definition short2 :: tensor where
  "short2 = \<lparr>shape = [2], dtype = ''float32'', data = [10, 20]\<rparr>"

text \<open>
  What an unravel function makes of the leaf \<open>t\<close> recorded at offset \<open>start\<close>, read from
  an array \<open>arr\<close> of \<open>prod_list pre\<close> rows of length \<open>L\<close>: from each row, as many elements
  as the leaf's event size, beginning at the clamped start, cast to the leaf's canonical
  dtype and given the shape \<open>newshape\<close>.
\<close>

definition read_leaf ::
  "np_env \<Rightarrow> tensor \<Rightarrow> nat list \<Rightarrow> nat \<Rightarrow> nat list \<Rightarrow> int \<Rightarrow> nat \<Rightarrow> tensor \<Rightarrow> tensor" where
  "read_leaf env arr pre L newshape start bd t =
     \<lparr>shape = newshape, dtype = canonicalize_dtype env (dtype t),
      data = map (cast env (canonicalize_dtype env (dtype t)))
               (concat (map (\<lambda>blk. take (prod_list (drop bd (shape t)))
                                    (drop (clamp_start start (int (prod_list (drop bd (shape t)))) L) blk))
                            (chunks (prod_list pre) L (data arr))))\<rparr>"

text \<open>
  A leaf after a round trip through a flat array of dtype \<open>D\<close>: its shape, its dtype
  canonicalised, and each value cast to \<open>D\<close> and from there to the leaf's canonical dtype.
\<close>

definition recast :: "np_env \<Rightarrow> string \<Rightarrow> tensor \<Rightarrow> tensor" where
  "recast env D t =
     \<lparr>shape = shape t, dtype = canonicalize_dtype env (dtype t),
      data = map (\<lambda>v. cast env (canonicalize_dtype env (dtype t)) (cast env D v)) (data t)\<rparr>"

text \<open>
  The event size of a leaf (the product of its non-batch dimensions), the segment of a
  leaf's elements that belongs to batch row \<open>r\<close>, the leaf with its batch axes stripped at
  batch row \<open>r\<close>, and row \<open>r\<close> of a matrix as a vector (what indexing \<open>t[r]\<close> gives).
  \<open>flat_rows\<close> is row \<open>r\<close> of the concatenation before the cast.
\<close>

definition ev :: "nat \<Rightarrow> tensor \<Rightarrow> nat" where
  "ev bd l = prod_list (drop bd (shape l))"

definition seg :: "nat \<Rightarrow> tensor \<Rightarrow> nat \<Rightarrow> real list" where
  "seg bd l r = take (ev bd l) (drop (r * ev bd l) (data l))"

definition batch_entry :: "nat \<Rightarrow> nat \<Rightarrow> tensor \<Rightarrow> tensor" where
  "batch_entry bd r l = \<lparr>shape = drop bd (shape l), dtype = dtype l, data = seg bd l r\<rparr>"

definition flat_row :: "tensor \<Rightarrow> nat \<Rightarrow> tensor" where
  "flat_row t r = \<lparr>shape = [last (shape t)], dtype = dtype t, data = row_of t r\<rparr>"

definition flat_rows :: "nat \<Rightarrow> tensor list \<Rightarrow> nat \<Rightarrow> real list" where
  "flat_rows bd ls r = concat (map (\<lambda>l. seg bd l r) ls)"

text \<open>Two parameter sites of two particles each, and a single site, with their ravelings.\<close>

definition col2 :: tensor where
  "col2 = \<lparr>shape = [2, 1], dtype = ''float32'', data = [1, 2]\<rparr>"

definition mat22 :: tensor where
  "mat22 = \<lparr>shape = [2, 2], dtype = ''float32'', data = [3, 4, 5, 6]\<rparr>"

definition flat23 :: tensor where
  "flat23 = \<lparr>shape = [2, 3], dtype = ''float32'', data = [1, 3, 4, 2, 5, 6]\<rparr>"

definition two_sites :: pytree where
  "two_sites = [(''b'', mat22), (''a'', col2)]"

definition two_sites_raveled :: raveled where
  "two_sites_raveled = \<lparr>r_flat = flat23, r_treedef = [''a'', ''b''], r_batch_dims = 1,
     r_metadata = [\<lparr>m_flat = col2, m_shape = [2, 1], m_event_size = 1, m_dtype = ''float32''\<rparr>,
                   \<lparr>m_flat = mat22, m_shape = [2, 2], m_event_size = 2, m_dtype = ''float32''\<rparr>],
     r_idx = [0, 1, 3]\<rparr>"

definition col2_raveled :: raveled where
  "col2_raveled = \<lparr>r_flat = col2, r_treedef = [''a''], r_batch_dims = 1,
     r_metadata = [\<lparr>m_flat = col2, m_shape = [2, 1], m_event_size = 1, m_dtype = ''float32''\<rparr>],
     r_idx = [0, 1]\<rparr>"

text \<open>
  A numeric environment with the library's default 32-bit dtypes, on integer values (the
  values used below): 64-bit dtypes are canonicalised to their 32-bit counterparts, a
  concatenation of integers with floats is a float array, and a value cast to \<open>float32\<close>
  is rounded to 24 significant bits.  Up to \<open>2^24\<close> in magnitude every integer is a
  \<open>float32\<close>; from there to \<open>2^25\<close> the even integers are, and an odd integer, halfway
  between two of them, goes to the one that is a multiple of four (integers beyond
  \<open>2^25\<close> are not used).  Then a dictionary of an \<open>int32\<close> and a \<open>float32\<close> leaf, a leaf of
  dtype \<open>float64\<close>, and a leaf of \<open>2^31\<close> elements, each with its raveling.
\<close>

definition float32_of_int :: "int \<Rightarrow> int" where
  "float32_of_int n = (if \<bar>n\<bar> \<le> 16777216 \<or> even n then n else 4 * ((n + 1) div 4))"

definition x32_env :: np_env where
  "x32_env = \<lparr>
     canonicalize_dtype =
       (\<lambda>d. if d = ''float64'' then ''float32'' else if d = ''int64'' then ''int32'' else d),
     result_type =
       (\<lambda>ds. if ''float32'' \<in> set ds \<or> ''float64'' \<in> set ds then ''float32'' else ''int32''),
     cast =
       (\<lambda>d v. if d = ''float32'' \<and> v = real_of_int \<lfloor>v\<rfloor>
              then real_of_int (float32_of_int \<lfloor>v\<rfloor>) else v)\<rparr>"

definition big_int :: tensor where
  "big_int = \<lparr>shape = [1], dtype = ''int32'', data = [16777217]\<rparr>"

definition one_float :: tensor where
  "one_float = \<lparr>shape = [1], dtype = ''float32'', data = [1]\<rparr>"

definition mixed_tree :: pytree where
  "mixed_tree = [(''n'', big_int), (''w'', one_float)]"

definition mixed_raveled :: raveled where
  "mixed_raveled = \<lparr>
     r_flat = \<lparr>shape = [2], dtype = ''float32'', data = [16777216, 1]\<rparr>,
     r_treedef = [''n'', ''w''], r_batch_dims = 0,
     r_metadata = [\<lparr>m_flat = big_int, m_shape = [1], m_event_size = 1, m_dtype = ''int32''\<rparr>,
                   \<lparr>m_flat = one_float, m_shape = [1], m_event_size = 1, m_dtype = ''float32''\<rparr>],
     r_idx = [0, 1, 2]\<rparr>"

definition one_double :: tensor where
  "one_double = \<lparr>shape = [1], dtype = ''float64'', data = [1]\<rparr>"

definition double_raveled :: raveled where
  "double_raveled = \<lparr>
     r_flat = \<lparr>shape = [1], dtype = ''float32'', data = [1]\<rparr>,
     r_treedef = [''d''], r_batch_dims = 0,
     r_metadata = [\<lparr>m_flat = one_double, m_shape = [1], m_event_size = 1, m_dtype = ''float32''\<rparr>],
     r_idx = [0, 1]\<rparr>"

definition huge :: tensor where
  "huge = \<lparr>shape = [65536, 32768], dtype = ''float32'', data = replicate 2147483648 0\<rparr>"

definition huge_raveled :: raveled where
  "huge_raveled = \<lparr>
     r_flat = \<lparr>shape = [2147483648], dtype = ''float32'', data = replicate 2147483648 0\<rparr>,
     r_treedef = [''h''], r_batch_dims = 0,
     r_metadata = [\<lparr>m_flat = \<lparr>shape = [2147483648], dtype = ''float32'',
                               data = replicate 2147483648 0\<rparr>,
                    m_shape = [65536, 32768], m_event_size = - 2147483648,
                    m_dtype = ''float32''\<rparr>],
     r_idx = [0, - 2147483648]\<rparr>"

text \<open>
  An executable environment for evaluating the model on concrete inputs.  Keys are
  natural numbers and \<open>split\<close> numbers the children of a key; the model has a positive
  parameter \<open>sigma\<close> and the guide a parameter \<open>auto_loc\<close>; the joint log-density is the
  sum of all parameter values, so that its gradient is one everywhere (\<open>ones_like\<close>); the
  mean is the arithmetic mean, taken here of non-empty lists only; the kernel is linear, and its gradient is a forward difference, which is exact for it; the
  optimizer state is the parameter dictionary.
\<close>

definition exp_transform :: transform where
  "exp_transform = \<lparr>t_call = (\<lambda>t. t\<lparr>data := map exp (data t)\<rparr>),
                     t_inv = (\<lambda>t. t\<lparr>data := map ln (data t)\<rparr>)\<rparr>"

definition identity_transform :: transform where
  "identity_transform = \<lparr>t_call = (\<lambda>t. t), t_inv = (\<lambda>t. t)\<rparr>"

definition apply_transforms :: "(string \<times> transform) list \<Rightarrow> pytree \<Rightarrow> pytree" where
  "apply_transforms ts params =
     map (\<lambda>(k, v). (k, case map_of ts k of None \<Rightarrow> v | Some t \<Rightarrow> t_call t v)) params"

definition ones_like :: "tensor \<Rightarrow> tensor" where
  "ones_like t = t\<lparr>data := map (\<lambda>_. 1) (data t)\<rparr>"

definition forward_difference :: "(real list \<Rightarrow> real) \<Rightarrow> real list \<Rightarrow> real list" where
  "forward_difference f y = map (\<lambda>i. f (y[i := y ! i + 1]) - f y) [0 ..< length y]"

definition scalar :: "real \<Rightarrow> tensor" where
  "scalar v = \<lparr>shape = [], dtype = ''float32'', data = [v]\<rparr>"

definition demo_env :: "(nat, pytree, unit) stein_env" where
  "demo_env = \<lparr>
     np = plain_env,
     split = (\<lambda>k n. map (\<lambda>i. n * k + i + 1) [0 ..< n]),
     get_trace_model = (\<lambda>k a. Inr [
        \<lparr>site_name = ''sigma'', site_type = ''param'', site_value = scalar 1,
         site_constraint = Some ''positive''\<rparr>,
        \<lparr>site_name = ''obs'', site_type = ''sample'', site_value = scalar 0,
         site_constraint = None\<rparr>]),
     get_trace_guide = (\<lambda>k a. Inr [
        \<lparr>site_name = ''auto_loc'', site_type = ''param'',
         site_value = \<lparr>shape = [1, 1], dtype = ''float32'', data = [0]\<rparr>,
         site_constraint = None\<rparr>]),
     find_params = (\<lambda>k a. Inr (\<lambda>name. None)),
     biject_to = (\<lambda>c. if c = ''positive'' then exp_transform else identity_transform),
     transform_fn = apply_transforms,
     model_log_density = (\<lambda>model_seed guide_seed a params.
        Inr (sum_list (concat (map (\<lambda>(k, v). data v) params)))),
     optim_init = (\<lambda>params. params),
     optim_get_params = (\<lambda>s. s),
     optim_update = (\<lambda>grads s. Inr s),
     log_kernel_fn = (\<lambda>particles x y. sum_list (map2 (*) x y) + 1),
     np_mean = (\<lambda>vs. sum_list vs / real (length vs)),
     grad_vector = forward_difference,
     grad_array = (\<lambda>f x. ones_like x),
     grad_leaves = (\<lambda>f x. map ones_like (fst (tree_flatten x)))\<rparr>"

text \<open>An initialised object with one particle and a guide parameter \<open>w\<close>, its
  parameters, and the arrays met when the force calculator runs on them: the raveling of
  the guide's parameters, the dictionary that the unravel function makes of the
  particle matrix, and the value of \<open>jfp_fn\<close>.\<close>

definition one_particle :: svgd where
  "one_particle = \<lparr>num_stein_particles = 1, num_loss_particles = 1,
      guide_param_names = Some {''w''}, constrain_fn = Some (\<lambda>p. p)\<rparr>"

definition one_particle_params :: pytree where
  "one_particle_params = [(''w'', \<lparr>shape = [1, 1], dtype = ''float32'', data = [2]\<rparr>),
                          (''sigma'', scalar 3)]"

definition w_leaf :: tensor where
  "w_leaf = \<lparr>shape = [1, 1], dtype = ''float32'', data = [2]\<rparr>"

definition w_raveled :: raveled where
  "w_raveled = \<lparr>r_flat = w_leaf, r_treedef = [''w''], r_batch_dims = 1,
     r_metadata = [\<lparr>m_flat = w_leaf, m_shape = [1, 1], m_event_size = 1, m_dtype = ''float32''\<rparr>],
     r_idx = [0, 1]\<rparr>"

definition w_view :: tensor where
  "w_view = \<lparr>shape = [1], dtype = ''float32'', data = [2]\<rparr>"

definition loss5 :: tensor where
  "loss5 = \<lparr>shape = [1], dtype = ''float32'', data = [5]\<rparr>"

text \<open>
  The force on a particle as the specification words it: the particle's score scaled by
  the sum over all particles of the kernel at the particle and each of them, plus the
  sum over all particles of the gradient of the kernel in its second argument, the first
  held at the particle.
\<close>

definition spec_particle_force ::
  "('k, 'o, 'a) stein_env \<Rightarrow> (real list \<Rightarrow> real list \<Rightarrow> real) \<Rightarrow> real list list \<Rightarrow>
   real list \<Rightarrow> real list \<Rightarrow> real list" where
  "spec_particle_force env k particles x score =
     vadd (scale (sum_list (map (\<lambda>y. k x y) particles)) score)
          (vsum (length x) (map (\<lambda>y. grad_vector env (k x) y) particles))"

text \<open>Two particles in the plane, their scores, and the forces on them under the
  linear kernel of the environment above.\<close>

definition two_particles :: tensor where
  "two_particles = \<lparr>shape = [2, 2], dtype = ''float32'', data = [1, 0, 0, 1]\<rparr>"

definition two_scores :: tensor where
  "two_scores = \<lparr>shape = [2, 2], dtype = ''float32'', data = [1, 2, 3, 4]\<rparr>"

definition two_forces :: tensor where
  "two_forces = \<lparr>shape = [2, 2], dtype = ''float32'', data = [5, 6, 9, 14]\<rparr>"

text \<open>
  An object as \<open>__init__\<close> leaves it with one particle, and what \<open>init\<close> makes of it in
  the environment above with key 0: the object, the transforms, the parameters and the
  state.
\<close>

definition fresh_svgd :: svgd where
  "fresh_svgd = \<lparr>num_stein_particles = 1, num_loss_particles = 1,
                  guide_param_names = None, constrain_fn = None\<rparr>"

definition auto_loc_leaf :: tensor where
  "auto_loc_leaf = \<lparr>shape = [1, 1], dtype = ''float32'', data = [0]\<rparr>"

definition demo_transforms :: "(string \<times> transform) list" where
  "demo_transforms = [(''sigma'', exp_transform), (''auto_loc'', identity_transform)]"

definition initialised_svgd :: svgd where
  "initialised_svgd = \<lparr>num_stein_particles = 1, num_loss_particles = 1,
      guide_param_names = Some {''a'', ''u'', ''t'', ''o'', ''_'', ''l'', ''c''},
      constrain_fn = Some (apply_transforms demo_transforms)\<rparr>"

definition initial_params :: pytree where
  "initial_params = [(''sigma'', scalar 0), (''auto_loc'', auto_loc_leaf)]"

definition initial_state :: "(pytree, nat) svgd_state" where
  "initial_state = \<lparr>state_optim_state = initial_params, state_rng_key = 3\<rparr>"

text \<open>The raveling of a dictionary with no leaves.\<close>

definition empty_raveled :: raveled where
  "empty_raveled = \<lparr>r_flat = empty_array, r_treedef = [], r_batch_dims = 1,
                      r_metadata = [], r_idx = [0]\<rparr>"

text \<open>An object with the default ten particles, and a guide parameter of two
  particles.\<close>

definition ten_particles :: svgd where
  "ten_particles = \<lparr>num_stein_particles = 10, num_loss_particles = 2,
                     guide_param_names = None, constrain_fn = None\<rparr>"

definition w_two :: tensor where
  "w_two = \<lparr>shape = [2, 1], dtype = ''float32'', data = [2, 4]\<rparr>"

section \<open>Properties of the raveler\<close>

lemma upt_two: "[0 ..< 2] = [0, 1]"
  by (simp add: numeral_2_eq_2)

lemma wrap32_id: "0 \<le> n \<Longrightarrow> n < 2147483648 \<Longrightarrow> wrap32 n = n"
  by (simp add: wrap32_def)

lemma mapE_Inr_iff: "mapE f xs = Inr ys \<longleftrightarrow> list_all2 (\<lambda>x y. f x = Inr y) xs ys"
proof (induction xs arbitrary: ys)
  case Nil
  then show ?case by auto
next
  case (Cons x xs)
  show ?case
  proof (cases ys)
    case Nil
    then show ?thesis by (auto split: sum.splits)
  next
    case (Cons y ys')
    show ?thesis
      unfolding Cons using Cons.IH [of ys'] by (auto split: sum.splits)
  qed
qed

lemma mapE_Inr_map: "(\<And>x. x \<in> set xs \<Longrightarrow> f x = Inr (g x)) \<Longrightarrow> mapE f xs = Inr (map g xs)"
  by (induction xs) auto

lemma length_chunks: "length (chunks k n xs) = k"
  by (induction k arbitrary: xs) auto

lemma chunks_concat:
  "(\<And>b. b \<in> set bs \<Longrightarrow> length b = n) \<Longrightarrow> chunks (length bs) n (concat bs @ rest) = bs"
  by (induction bs) auto

lemma chunks_lengths:
  "k * n \<le> length xs \<Longrightarrow> b \<in> set (chunks k n xs) \<Longrightarrow> length b = n"
proof (induction k arbitrary: xs)
  case 0
  then show ?case by simp
next
  case (Suc k)
  from Suc.prems(1) have "n \<le> length xs" and "k * n \<le> length (drop n xs)" by auto
  with Suc.IH [of "drop n xs"] Suc.prems(2) show ?case by auto
qed

lemma concat_chunks: "length xs = k * n \<Longrightarrow> concat (chunks k n xs) = xs"
proof (induction k arbitrary: xs)
  case 0
  then show ?case by simp
next
  case (Suc k)
  then have "length (drop n xs) = k * n" by simp
  with Suc.IH have "concat (chunks k n (drop n xs)) = drop n xs" by blast
  then show ?case by simp
qed

lemma chunks_nth:
  "i < k \<Longrightarrow> chunks k n xs ! i = take n (drop (i * n) xs)"
proof (induction k arbitrary: xs i)
  case 0
  then show ?case by simp
next
  case (Suc k)
  then show ?case by (cases i) (auto simp: add.commute)
qed

lemma chunks_eq_map: "chunks k n xs = map (\<lambda>i. take n (drop (i * n) xs)) [0..<k]"
  by (rule nth_equalityI) (simp_all add: length_chunks chunks_nth)

lemma length_concat_const:
  "(\<And>b. b \<in> set bs \<Longrightarrow> length (f b) = n) \<Longrightarrow> length (concat (map f bs)) = length bs * n"
  by (induction bs) auto

lemma slice_blocks_length:
  assumes "length xs = k * L" and "n + s \<le> L"
  shows "length (concat (map (\<lambda>blk. take n (drop s blk)) (chunks k L xs))) = k * n"
proof -
  have "\<And>b. b \<in> set (chunks k L xs) \<Longrightarrow> length (take n (drop s b)) = n"
    using chunks_lengths [of k L xs] assms by auto
  then show ?thesis
    using length_concat_const [of "chunks k L xs" "\<lambda>blk. take n (drop s blk)" n]
    by (simp add: length_chunks)
qed

lemma unravel_leaf_last_axis:
  assumes sh: "shape arr = pre @ [L]"
    and len: "length (data arr) = prod_list pre * L"
    and e0: "0 \<le> m_event_size m"
    and ns: "prod_list newshape = prod_list pre * nat (m_event_size m)"
  shows "unravel_leaf env arr (length pre) newshape start m =
    (if int L < m_event_size m then Inl SliceError
     else Inr \<lparr>shape = newshape, dtype = m_dtype m,
               data = map (cast env (m_dtype m))
                 (concat (map (\<lambda>blk. take (nat (m_event_size m))
                                        (drop (clamp_start start (m_event_size m) L) blk))
                              (chunks (prod_list pre) L (data arr))))\<rparr>)"
proof (cases "int L < m_event_size m")
  case True
  then show ?thesis
    by (simp add: unravel_leaf_def dynamic_slice_in_dim_def sh bindE_def)
next
  case False
  define n where "n = nat (m_event_size m)"
  define s where "s = clamp_start start (m_event_size m) L"
  have "n + s \<le> L" using False e0 by (auto simp: n_def s_def clamp_start_def)
  then have l: "length (concat (map (\<lambda>blk. take n (drop s blk)) (chunks (prod_list pre) L (data arr))))
      = prod_list pre * n"
    using slice_blocks_length [OF len] by blast
  have ds: "dynamic_slice_in_dim arr start (m_event_size m) (length pre) =
      Inr \<lparr>shape = pre @ [n], dtype = dtype arr,
           data = concat (map (\<lambda>blk. take n (drop s blk)) (chunks (prod_list pre) L (data arr)))\<rparr>"
    using False e0 by (simp add: dynamic_slice_in_dim_def sh n_def s_def Let_def)
  show ?thesis
    using False l ns 
    by (simp add: unravel_leaf_def ds bindE_def reshape_def astype_def n_def [symmetric] s_def [symmetric])
qed

lemma prod_list_take_drop: "prod_list (take n xs) * prod_list (drop n xs) = (prod_list xs :: nat)"
  by (metis append_take_drop_id prod_list.append)

lemma leaf_metadata_wf:
  assumes "wf_tensor l"
  shows "leaf_metadata env bd l =
    (if prod_list (take bd (shape l)) = 0 then Inl ShapeError else Inr (meta_of env bd l))"
proof (cases "prod_list (take bd (shape l)) = 0")
  case True
  then show ?thesis by (simp add: leaf_metadata_def reshape_infer_def bindE_def)
next
  case False
  have len: "length (data l) = prod_list (take bd (shape l)) * prod_list (drop bd (shape l))"
    using assms by (simp add: wf_tensor_def prod_list_take_drop)
  then have "length (data l) div prod_list (take bd (shape l)) = prod_list (drop bd (shape l))"
    using False by simp
  then show ?thesis
    using False len by (simp add: leaf_metadata_def reshape_infer_def reshape_def bindE_def meta_of_def)
qed

lemma mapE_leaf_metadata:
  assumes "\<And>l. l \<in> set ls \<Longrightarrow> wf_tensor l" and "mapE (leaf_metadata env bd) ls = Inr ms"
  shows "ms = map (meta_of env bd) ls \<and> (\<forall>l \<in> set ls. prod_list (take bd (shape l)) \<noteq> 0)"
  using assms
proof (induction ls arbitrary: ms)
  case Nil
  then show ?case by simp
next
  case (Cons l ls)
  have wl: "wf_tensor l" using Cons.prems(1) by simp
  from Cons.prems(2) obtain ms' where
    a: "prod_list (take bd (shape l)) \<noteq> 0" and b: "mapE (leaf_metadata env bd) ls = Inr ms'"
    and c: "ms = meta_of env bd l # ms'"
    by (auto simp: leaf_metadata_wf [OF wl] split: if_splits sum.splits)
  from Cons.IH [OF _ b] Cons.prems(1) have "ms' = map (meta_of env bd) ls \<and> (\<forall>l \<in> set ls. prod_list (take bd (shape l)) \<noteq> 0)"
    by simp
  with a c show ?case by simp
qed

lemma ravel_pytree_Inr:
  assumes "ravel_pytree env x bd = Inr rv" and wf: "\<forall>t \<in> snd ` set x. wf_tensor t"
  shows "r_metadata rv = map (meta_of env bd) (map snd (sort_key fst x))"
    and "r_treedef rv = map fst (sort_key fst x)"
    and "r_batch_dims rv = bd"
    and "r_idx rv = cumsum32 (0 # map m_event_size (r_metadata rv))"
    and "\<forall>t \<in> snd ` set x. prod_list (take bd (shape t)) \<noteq> 0"
    and "x \<noteq> [] \<Longrightarrow> concatenate env (map m_flat (r_metadata rv)) = Inr (r_flat rv)"
    and "x = [] \<Longrightarrow> r_flat rv = empty_array"
proof -
  define ls where "ls = map snd (sort_key fst x)"
  have sl: "set ls = snd ` set x" by (simp add: ls_def)
  from assms(1) obtain flat ms idx where
    rl: "ravel_list env bd ls = Inr (flat, ms, idx)"
    and rv: "rv = \<lparr>r_flat = flat, r_treedef = map fst (sort_key fst x),
                   r_batch_dims = bd, r_metadata = ms, r_idx = idx\<rparr>"
    by (auto simp: ravel_pytree_def tree_flatten_def Let_def bindE_def ls_def split: sum.splits)
  from rl obtain ms0 where m0: "mapE (leaf_metadata env bd) ls = Inr ms0"
    by (auto simp: ravel_list_def bindE_def split: sum.splits)
  have wl: "\<And>l. l \<in> set ls \<Longrightarrow> wf_tensor l" using wf sl by blast
  note M = mapE_leaf_metadata [OF wl m0]
  from rl m0 have ms: "ms = ms0" and idx: "idx = cumsum32 (0 # map m_event_size ms0)"
    and fl: "(if ms0 \<noteq> [] then concatenate env (map m_flat ms0) else Inr empty_array) = Inr flat"
    by (auto simp: ravel_list_def bindE_def Let_def split: sum.splits if_splits)
  show "r_metadata rv = map (meta_of env bd) (map snd (sort_key fst x))"
    using M ms rv by (simp add: ls_def)
  show "r_treedef rv = map fst (sort_key fst x)" using rv by simp
  show "r_batch_dims rv = bd" using rv by simp
  show "r_idx rv = cumsum32 (0 # map m_event_size (r_metadata rv))" using rv idx ms by simp
  show "\<forall>t \<in> snd ` set x. prod_list (take bd (shape t)) \<noteq> 0" using M sl by simp
  show "concatenate env (map m_flat (r_metadata rv)) = Inr (r_flat rv)" if "x \<noteq> []"
  proof -
    from that have "set ls \<noteq> {}" unfolding sl by simp
    then have "ls \<noteq> []" by auto
    with M have "ms0 \<noteq> []" by simp
    with fl rv ms show ?thesis by simp
  qed
  show "r_flat rv = empty_array" if "x = []"
    using that fl rv ms M by (simp add: ls_def)
qed

lemma prod32_small: "prod_list ds < 2147483648 \<Longrightarrow> prod32 ds = int (prod_list ds)"
  by (simp add: prod32_def wrap32_id)

lemma unravel_leaf_meta:
  assumes sh: "shape arr = pre @ [L]"
    and len: "length (data arr) = prod_list pre * L"
    and small: "prod_list (drop bd (shape l)) < 2147483648"
    and ns: "prod_list newshape = prod_list pre * prod_list (drop bd (shape l))"
  shows "unravel_leaf env arr (length pre) newshape start (meta_of env bd l) =
    (if L < prod_list (drop bd (shape l)) then Inl SliceError
     else Inr \<lparr>shape = newshape, dtype = canonicalize_dtype env (dtype l),
               data = map (cast env (canonicalize_dtype env (dtype l)))
                 (concat (map (\<lambda>blk. take (prod_list (drop bd (shape l)))
                       (drop (clamp_start start (int (prod_list (drop bd (shape l)))) L) blk))
                              (chunks (prod_list pre) L (data arr))))\<rparr>)"
proof -
  have e: "m_event_size (meta_of env bd l) = int (prod_list (drop bd (shape l)))"
    by (simp add: meta_of_def prod32_small [OF small])
  have d: "m_dtype (meta_of env bd l) = canonicalize_dtype env (dtype l)"
    by (simp add: meta_of_def)
  show ?thesis
    using unravel_leaf_last_axis [of arr pre L "meta_of env bd l" newshape env start]
      sh len ns
    by (simp add: e d)
qed

lemma bex_enumerate: "(\<exists>p \<in> set (enumerate 0 xs). P p) \<longleftrightarrow> (\<exists>i < length xs. P (i, xs ! i))"
proof
  assume "\<exists>p \<in> set (enumerate 0 xs). P p"
  then obtain p where "p \<in> set (enumerate 0 xs)" and "P p" by blast
  then have "fst p < length xs" and "p = (fst p, xs ! fst p)"
    by (auto simp: in_set_enumerate_eq)
  with \<open>P p\<close> show "\<exists>i < length xs. P (i, xs ! i)" by metis
next
  assume "\<exists>i < length xs. P (i, xs ! i)"
  then obtain i where "i < length xs" and "P (i, xs ! i)" by blast
  moreover from this have "(i, xs ! i) \<in> set (enumerate 0 xs)"
    by (simp add: in_set_enumerate_eq)
  ultimately show "\<exists>p \<in> set (enumerate 0 xs). P p" by blast
qed

lemma take_drop_concat_nth:
  assumes "i < length xss"
  shows "take (length (xss ! i)) (drop (length (concat (take i xss))) (concat xss)) = xss ! i"
proof -
  have "xss = take i xss @ (xss ! i) # drop (Suc i) xss"
    using assms by (rule id_take_nth_drop)
  then have "concat xss = concat (take i xss) @ (xss ! i) @ concat (drop (Suc i) xss)"
    by (metis concat.simps(2) concat_append)
  then show ?thesis by simp
qed

lemma length_concat_sum: "length (concat xss) = sum_list (map length xss)"
  by (induction xss) auto

lemma concat_rows_data:
  assumes "length d = k * e"
  shows "concat (map (\<lambda>r. take e (drop (r * e) d)) [0..<k]) = d"
  using concat_chunks [OF assms] by (simp add: chunks_eq_map)

lemma cumsum32_from_nth:
  assumes "\<And>x. x \<in> set xs \<Longrightarrow> 0 \<le> x" and "0 \<le> acc" and "acc + sum_list xs < 2147483648"
    and "i < length xs"
  shows "cumsum32_from acc xs ! i = acc + sum_list (take (Suc i) xs)"
  using assms
proof (induction xs arbitrary: acc i)
  case Nil
  then show ?case by simp
next
  case (Cons x xs)
  have x0: "0 \<le> x" using Cons.prems(1) by simp
  have s0: "0 \<le> sum_list xs" using Cons.prems(1) by (simp add: sum_list_nonneg)
  have w: "wrap32 (acc + x) = acc + x"
    using x0 s0 Cons.prems(2,3) by (intro wrap32_id) auto
  show ?case
  proof (cases i)
    case 0
    then show ?thesis by (simp add: w)
  next
    case (Suc j)
    have "cumsum32_from (acc + x) xs ! j = (acc + x) + sum_list (take (Suc j) xs)"
      using Cons.prems x0 Suc by (intro Cons.IH) auto
    then show ?thesis using Suc by (simp add: w)
  qed
qed

lemma cumsum32_offsets:
  assumes "\<And>x. x \<in> set xs \<Longrightarrow> 0 \<le> x" and "sum_list xs < 2147483648" and "i \<le> length xs"
  shows "cumsum32 (0 # xs) ! i = sum_list (take i xs)"
proof (cases i)
  case 0
  then show ?thesis by (simp add: cumsum32_def wrap32_def)
next
  case (Suc j)
  then have "j < length xs" using assms(3) by simp
  from cumsum32_from_nth [OF assms(1) _ _ this, of 0] assms(2)
  show ?thesis using Suc by (simp add: cumsum32_def wrap32_def)
qed

lemma meta_flat_facts:
  "shape (m_flat (meta_of env bd l)) = take bd (shape l) @ [ev bd l]"
  "butlast (shape (m_flat (meta_of env bd l))) = take bd (shape l)"
  "last (shape (m_flat (meta_of env bd l))) = ev bd l"
  "row_of (m_flat (meta_of env bd l)) r = seg bd l r"
  "dtype (m_flat (meta_of env bd l)) = dtype l"
  by (simp_all add: meta_of_def ev_def seg_def row_of_def)

lemma concatenate_meta:
  assumes ne: "ls \<noteq> []"
    and c: "concatenate env (map m_flat (map (meta_of env bd) ls)) = Inr flat"
  shows "\<forall>l \<in> set ls. take bd (shape l) = take bd (shape (hd ls))"
    and "flat = \<lparr>shape = take bd (shape (hd ls)) @ [sum_list (map (ev bd) ls)],
                 dtype = result_type env (map dtype ls),
                 data = map (cast env (result_type env (map dtype ls)))
                   (concat (map (\<lambda>r. concat (map (\<lambda>l. seg bd l r) ls))
                      [0 ..< prod_list (take bd (shape (hd ls)))]))\<rparr>"
proof -
  from ne obtain l0 ls' where ls: "ls = l0 # ls'" by (cases ls) auto
  let ?fs = "map m_flat (map (meta_of env bd) ls)"
  have ok: "\<not> (\<exists>u \<in> set ?fs. shape u = [] \<or> butlast (shape u) \<noteq> take bd (shape l0))"
    using c by (auto simp: concatenate_def ls meta_flat_facts split: if_splits)
  then show "\<forall>l \<in> set ls. take bd (shape l) = take bd (shape (hd ls))"
    by (auto simp: ls meta_flat_facts)
  have m1: "map (\<lambda>u. last (shape u)) ?fs = map (ev bd) ls"
    by (simp add: meta_flat_facts comp_def)
  have m2: "map dtype ?fs = map dtype ls"
    by (simp add: meta_flat_facts comp_def)
  have m3: "\<And>r. map (\<lambda>u. row_of u r) ?fs = map (\<lambda>l. seg bd l r) ls"
    by (simp add: meta_flat_facts comp_def)
  have "concatenate env ?fs = Inr \<lparr>shape = take bd (shape l0) @ [sum_list (map (\<lambda>u. last (shape u)) ?fs)],
                 dtype = result_type env (map dtype ?fs),
                 data = map (cast env (result_type env (map dtype ?fs)))
                   (concat (map (\<lambda>r. concat (map (\<lambda>u. row_of u r) ?fs))
                      [0 ..< prod_list (take bd (shape l0))]))\<rparr>"
    using c ok by (simp add: concatenate_def ls meta_flat_facts Let_def split: if_splits)
  then show "flat = \<lparr>shape = take bd (shape (hd ls)) @ [sum_list (map (ev bd) ls)],
                 dtype = result_type env (map dtype ls),
                 data = map (cast env (result_type env (map dtype ls)))
                   (concat (map (\<lambda>r. concat (map (\<lambda>l. seg bd l r) ls))
                      [0 ..< prod_list (take bd (shape (hd ls)))]))\<rparr>"
    using c unfolding m1 m2 m3 by (simp add: ls)
qed

lemma wf_tensor_split:
  "wf_tensor l \<Longrightarrow> length (data l) = prod_list (take bd (shape l)) * ev bd l"
  by (simp add: wf_tensor_def ev_def prod_list_take_drop)

lemma seg_length:
  assumes "wf_tensor l" and "r < prod_list (take bd (shape l))"
  shows "length (seg bd l r) = ev bd l"
proof -
  have "Suc r * ev bd l \<le> prod_list (take bd (shape l)) * ev bd l"
    using assms(2) by (intro mult_le_mono1) simp
  then have "r * ev bd l + ev bd l \<le> length (data l)"
    using wf_tensor_split [OF assms(1), of bd] by simp
  then show ?thesis by (simp add: seg_def)
qed

lemma concat_seg: "wf_tensor l \<Longrightarrow>
    concat (map (seg bd l) [0 ..< prod_list (take bd (shape l))]) = data l"
  using concat_rows_data [of "data l" "prod_list (take bd (shape l))" "ev bd l"]
  by (simp add: wf_tensor_split seg_def [abs_def])

lemma row_length:
  assumes "\<And>l. l \<in> set ls \<Longrightarrow> wf_tensor l \<and> r < prod_list (take bd (shape l))"
  shows "length (concat (map (\<lambda>l. seg bd l r) ls)) = sum_list (map (ev bd) ls)"
proof -
  have e: "map length (map (\<lambda>l. seg bd l r) ls) = map (ev bd) ls"
    using assms by (auto simp: seg_length)
  show ?thesis unfolding length_concat_sum e ..
qed

lemma row_slice:
  assumes wf: "\<And>l. l \<in> set ls \<Longrightarrow> wf_tensor l \<and> r < prod_list (take bd (shape l))"
    and i: "i < length ls"
  shows "take (ev bd (ls ! i)) (drop (sum_list (take i (map (ev bd) ls)))
            (map c (concat (map (\<lambda>l. seg bd l r) ls)))) = map c (seg bd (ls ! i) r)"
proof -
  let ?xss = "map (\<lambda>l. seg bd l r) ls"
  have li: "length (seg bd (ls ! i) r) = ev bd (ls ! i)"
    using wf i by (simp add: seg_length)
  have "\<And>l. l \<in> set (take i ls) \<Longrightarrow> wf_tensor l \<and> r < prod_list (take bd (shape l))"
    using wf by (meson in_set_takeD)
  from row_length [OF this]
  have lo: "length (concat (take i ?xss)) = sum_list (take i (map (ev bd) ls))"
    by (simp add: take_map)
  have "take (length (?xss ! i)) (drop (length (concat (take i ?xss))) (concat ?xss)) = ?xss ! i"
    using i by (intro take_drop_concat_nth) simp
  then have "take (ev bd (ls ! i)) (drop (sum_list (take i (map (ev bd) ls))) (concat ?xss))
      = seg bd (ls ! i) r"
    using i by (simp add: li lo)
  then have "map c (take (ev bd (ls ! i)) (drop (sum_list (take i (map (ev bd) ls))) (concat ?xss)))
      = map c (seg bd (ls ! i) r)"
    by simp
  then show ?thesis by (simp only: take_map drop_map)
qed

lemma offset_bound:
  assumes "i < length es"
  shows "sum_list (take i es) + es ! i \<le> (sum_list es :: nat)"
proof -
  have "es = take i es @ es ! i # drop (Suc i) es"
    using assms by (rule id_take_nth_drop)
  then have "sum_list es = sum_list (take i es) + es ! i + sum_list (drop (Suc i) es)"
    by (metis add.assoc sum_list.Cons sum_list.append)
  then show ?thesis by simp
qed

lemma chunks_flat:
  assumes wf: "\<And>l. l \<in> set ls \<Longrightarrow> wf_tensor l \<and> take bd (shape l) = B"
  shows "chunks (prod_list B) (sum_list (map (ev bd) ls))
           (map c (concat (map (flat_rows bd ls) [0 ..< prod_list B])))
         = map (\<lambda>r. map c (flat_rows bd ls r)) [0 ..< prod_list B]"
proof -
  let ?bs = "map (\<lambda>r. map c (flat_rows bd ls r)) [0 ..< prod_list B]"
  have len: "\<And>b. b \<in> set ?bs \<Longrightarrow> length b = sum_list (map (ev bd) ls)"
  proof -
    fix b assume "b \<in> set ?bs"
    then obtain r where r: "r < prod_list B" and b: "b = map c (flat_rows bd ls r)" by auto
    have "\<And>l. l \<in> set ls \<Longrightarrow> wf_tensor l \<and> r < prod_list (take bd (shape l))"
      using wf r by simp
    from row_length [OF this] show "length b = sum_list (map (ev bd) ls)"
      by (simp add: b flat_rows_def)
  qed
  have "map c (concat (map (flat_rows bd ls) [0 ..< prod_list B])) = concat ?bs"
    by (simp add: map_concat comp_def)
  moreover have "chunks (length ?bs) (sum_list (map (ev bd) ls)) (concat ?bs @ []) = ?bs"
    using len by (rule chunks_concat)
  ultimately show ?thesis by simp
qed

lemma flat_length:
  assumes wf: "\<And>l. l \<in> set ls \<Longrightarrow> wf_tensor l \<and> take bd (shape l) = B"
  shows "length (map c (concat (map (flat_rows bd ls) [0 ..< prod_list B])))
         = prod_list B * sum_list (map (ev bd) ls)"
proof -
  have "\<And>r. r \<in> set [0 ..< prod_list B] \<Longrightarrow> length (flat_rows bd ls r) = sum_list (map (ev bd) ls)"
  proof -
    fix r assume "r \<in> set [0 ..< prod_list B]"
    then have "\<And>l. l \<in> set ls \<Longrightarrow> wf_tensor l \<and> r < prod_list (take bd (shape l))"
      using wf by simp
    from row_length [OF this] show "length (flat_rows bd ls r) = sum_list (map (ev bd) ls)"
      by (simp add: flat_rows_def)
  qed
  from length_concat_const [of "[0 ..< prod_list B]" "flat_rows bd ls", OF this]
  show ?thesis by simp
qed

lemma slice_flat_leaf:
  assumes wf: "\<And>l. l \<in> set ls \<Longrightarrow> wf_tensor l \<and> take bd (shape l) = B"
    and i: "i < length ls"
  shows "concat (map (\<lambda>blk. take (ev bd (ls ! i)) (drop (sum_list (take i (map (ev bd) ls))) blk))
           (chunks (prod_list B) (sum_list (map (ev bd) ls))
              (map c (concat (map (flat_rows bd ls) [0 ..< prod_list B])))))
         = map c (data (ls ! i))"
proof -
  have li: "ls ! i \<in> set ls" using i by simp
  have "\<And>r. r \<in> set [0 ..< prod_list B] \<Longrightarrow>
      take (ev bd (ls ! i)) (drop (sum_list (take i (map (ev bd) ls))) (map c (flat_rows bd ls r)))
      = map c (seg bd (ls ! i) r)"
  proof -
    fix r assume "r \<in> set [0 ..< prod_list B]"
    then have "\<And>l. l \<in> set ls \<Longrightarrow> wf_tensor l \<and> r < prod_list (take bd (shape l))"
      using wf by simp
    from row_slice [OF this i]
    show "take (ev bd (ls ! i)) (drop (sum_list (take i (map (ev bd) ls))) (map c (flat_rows bd ls r)))
      = map c (seg bd (ls ! i) r)"
      by (simp add: flat_rows_def)
  qed
  then have e: "map (\<lambda>r. take (ev bd (ls ! i)) (drop (sum_list (take i (map (ev bd) ls)))
                 (map c (flat_rows bd ls r)))) [0 ..< prod_list B]
           = map (\<lambda>r. map c (seg bd (ls ! i) r)) [0 ..< prod_list B]"
    by (intro map_cong) auto
  have "concat (map (\<lambda>blk. take (ev bd (ls ! i)) (drop (sum_list (take i (map (ev bd) ls))) blk))
           (map (\<lambda>r. map c (flat_rows bd ls r)) [0 ..< prod_list B]))
         = concat (map (\<lambda>r. map c (seg bd (ls ! i) r)) [0 ..< prod_list B])"
    unfolding map_map comp_def e ..
  also have "\<dots> = map c (concat (map (seg bd (ls ! i)) [0 ..< prod_list B]))"
    by (simp add: map_concat comp_def)
  also have "\<dots> = map c (data (ls ! i))"
    using concat_seg [of "ls ! i" bd] wf [OF li] by simp
  finally show ?thesis by (simp add: chunks_flat [OF wf])
qed

lemma ev_le_total: "l \<in> set ls \<Longrightarrow> ev bd l \<le> sum_list (map (ev bd) ls)"
  by (induction ls) auto

lemma meta_event_sizes:
  assumes "sum_list (map (ev bd) ls) < 2147483648"
  shows "map m_event_size (map (meta_of env bd) ls) = map (\<lambda>l. int (ev bd l)) ls"
proof -
  have "\<And>l. l \<in> set ls \<Longrightarrow> m_event_size (meta_of env bd l) = int (ev bd l)"
  proof -
    fix l assume "l \<in> set ls"
    then have "ev bd l < 2147483648" using ev_le_total [of l ls bd] assms by simp
    then show "m_event_size (meta_of env bd l) = int (ev bd l)"
      by (simp add: meta_of_def ev_def prod32_small)
  qed
  then show ?thesis by simp
qed

lemma leaves_idx_nth:
  assumes small: "sum_list (map (ev bd) ls) < 2147483648" and i: "i \<le> length ls"
  shows "cumsum32 (0 # map m_event_size (map (meta_of env bd) ls)) ! i
         = int (sum_list (take i (map (ev bd) ls)))"
proof -
  let ?es = "map (\<lambda>l. int (ev bd l)) ls"
  have s: "sum_list ?es = int (sum_list (map (ev bd) ls))"
    by (induction ls) auto
  have t: "sum_list (take i ?es) = int (sum_list (take i (map (ev bd) ls)))"
    by (induction ls arbitrary: i) (auto simp: take_Cons split: nat.splits)
  have "cumsum32 (0 # ?es) ! i = sum_list (take i ?es)"
    using small i by (intro cumsum32_offsets) (auto simp: s)
  then show ?thesis unfolding meta_event_sizes [OF small] t .
qed

lemma clamp_offset:
  assumes "off + e \<le> (T::nat)"
  shows "clamp_start (int off) (int e) T = off"
  using assms by (simp add: clamp_start_def)

lemma unravel_leaf_from_flat:
  assumes wf: "\<And>l. l \<in> set ls \<Longrightarrow> wf_tensor l \<and> take bd (shape l) = B"
    and i: "i < length ls"
    and small: "sum_list (map (ev bd) ls) < 2147483648"
    and F: "F = \<lparr>shape = B @ [sum_list (map (ev bd) ls)], dtype = D,
                 data = map (cast env D) (concat (map (flat_rows bd ls) [0 ..< prod_list B]))\<rparr>"
  shows "unravel_leaf env F (length B) (shape (ls ! i))
           (cumsum32 (0 # map m_event_size (map (meta_of env bd) ls)) ! i) (meta_of env bd (ls ! i))
         = Inr \<lparr>shape = shape (ls ! i), dtype = canonicalize_dtype env (dtype (ls ! i)),
                data = map (cast env (canonicalize_dtype env (dtype (ls ! i))))
                         (map (cast env D) (data (ls ! i)))\<rparr>"
proof -
  let ?T = "sum_list (map (ev bd) ls)"
  let ?l = "ls ! i"
  let ?off = "sum_list (take i (map (ev bd) ls))"
  have li: "?l \<in> set ls" using i by simp
  have sh: "shape F = B @ [?T]" by (simp add: F)
  have len: "length (data F) = prod_list B * ?T"
    using flat_length [OF wf] by (simp add: F)
  have eT: "ev bd ?l \<le> ?T" using ev_le_total [OF li] .
  have sm: "prod_list (drop bd (shape ?l)) < 2147483648"
    using eT small by (simp add: ev_def)
  have ns: "prod_list (shape ?l) = prod_list B * prod_list (drop bd (shape ?l))"
    using prod_list_take_drop [of bd "shape ?l"] wf [OF li] by simp
  have ob: "?off + ev bd ?l \<le> ?T"
    using offset_bound [of i "map (ev bd) ls"] i by simp
  have st: "clamp_start (cumsum32 (0 # map m_event_size (map (meta_of env bd) ls)) ! i)
               (int (prod_list (drop bd (shape ?l)))) ?T = ?off"
    using leaves_idx_nth [OF small, of i env] i clamp_offset [OF ob] by (simp add: ev_def)
  have nl: "\<not> ?T < prod_list (drop bd (shape ?l))" using eT by (simp add: ev_def)
  have sl: "concat (map (\<lambda>blk. take (prod_list (drop bd (shape ?l))) (drop ?off blk))
           (chunks (prod_list B) ?T (data F))) = map (cast env D) (data ?l)"
    using slice_flat_leaf [OF wf i, of "cast env D"] by (simp add: F ev_def [symmetric])
  show ?thesis
    unfolding unravel_leaf_meta [OF sh len sm ns] st sl using nl by simp
qed

lemma row_of_flat:
  assumes wf: "\<And>l. l \<in> set ls \<Longrightarrow> wf_tensor l \<and> take bd (shape l) = B"
    and r: "r < prod_list B"
    and F: "F = \<lparr>shape = B @ [sum_list (map (ev bd) ls)], dtype = D,
                 data = map c (concat (map (flat_rows bd ls) [0 ..< prod_list B]))\<rparr>"
  shows "row_of F r = map c (flat_rows bd ls r)"
proof -
  let ?T = "sum_list (map (ev bd) ls)"
  have "row_of F r = chunks (prod_list B) ?T (data F) ! r"
    using r by (simp add: row_of_def F chunks_nth)
  also have "\<dots> = map c (flat_rows bd ls r)"
    using r by (simp add: F chunks_flat [OF wf])
  finally show ?thesis .
qed

lemma unravel_leaf_from_row:
  assumes wf: "\<And>l. l \<in> set ls \<Longrightarrow> wf_tensor l \<and> take bd (shape l) = B"
    and i: "i < length ls"
    and r: "r < prod_list B"
    and small: "sum_list (map (ev bd) ls) < 2147483648"
    and F: "F = \<lparr>shape = B @ [sum_list (map (ev bd) ls)], dtype = D,
                 data = map (cast env D) (concat (map (flat_rows bd ls) [0 ..< prod_list B]))\<rparr>"
  shows "unravel_leaf env (flat_row F r) 0 (drop bd (shape (ls ! i)))
           (cumsum32 (0 # map m_event_size (map (meta_of env bd) ls)) ! i) (meta_of env bd (ls ! i))
         = Inr \<lparr>shape = drop bd (shape (ls ! i)), dtype = canonicalize_dtype env (dtype (ls ! i)),
                data = map (cast env (canonicalize_dtype env (dtype (ls ! i))))
                         (map (cast env D) (seg bd (ls ! i) r))\<rparr>"
proof -
  let ?T = "sum_list (map (ev bd) ls)"
  let ?l = "ls ! i"
  let ?off = "sum_list (take i (map (ev bd) ls))"
  let ?R = "flat_row F r"
  have li: "?l \<in> set ls" using i by simp
  have wr: "\<And>l. l \<in> set ls \<Longrightarrow> wf_tensor l \<and> r < prod_list (take bd (shape l))"
    using wf r by simp
  have dR: "data ?R = map (cast env D) (flat_rows bd ls r)"
    using row_of_flat [OF wf r F] by (simp add: flat_row_def)
  have sh: "shape ?R = [] @ [?T]" by (simp add: flat_row_def F)
  have len: "length (data ?R) = prod_list [] * ?T"
    using row_length [OF wr] by (simp add: dR flat_rows_def)
  have eT: "ev bd ?l \<le> ?T" using ev_le_total [OF li] .
  have sm: "prod_list (drop bd (shape ?l)) < 2147483648"
    using eT small by (simp add: ev_def)
  have ns: "prod_list (drop bd (shape ?l)) = prod_list [] * prod_list (drop bd (shape ?l))"
    by simp
  have ob: "?off + ev bd ?l \<le> ?T"
    using offset_bound [of i "map (ev bd) ls"] i by simp
  have st: "clamp_start (cumsum32 (0 # map m_event_size (map (meta_of env bd) ls)) ! i)
               (int (prod_list (drop bd (shape ?l)))) ?T = ?off"
    using leaves_idx_nth [OF small, of i env] i clamp_offset [OF ob] by (simp add: ev_def)
  have nl: "\<not> ?T < prod_list (drop bd (shape ?l))" using eT by (simp add: ev_def)
  have ch: "chunks (prod_list []) ?T (data ?R) = [data ?R]"
  proof -
    have "chunks (Suc 0) ?T (data ?R) = [data ?R]" using len by simp
    then show ?thesis by simp
  qed
  have sl: "concat (map (\<lambda>blk. take (prod_list (drop bd (shape ?l))) (drop ?off blk))
           (chunks (prod_list []) ?T (data ?R))) = map (cast env D) (seg bd ?l r)"
    unfolding ch using row_slice [OF wr i, of "cast env D"]
    by (simp add: dR flat_rows_def ev_def [symmetric])
  have "unravel_leaf env ?R (length ([] :: nat list)) (drop bd (shape ?l))
           (cumsum32 (0 # map m_event_size (map (meta_of env bd) ls)) ! i) (meta_of env bd ?l)
         = Inr \<lparr>shape = drop bd (shape ?l), dtype = canonicalize_dtype env (dtype ?l),
                data = map (cast env (canonicalize_dtype env (dtype ?l)))
                         (map (cast env D) (seg bd ?l r))\<rparr>"
    unfolding unravel_leaf_meta [OF sh len sm ns] st sl using nl by simp
  then show ?thesis by simp
qed

lemma mapE_enumerate:
  assumes "\<And>i. i < length ms \<Longrightarrow> f (i, ms ! i) = Inr (g i)"
  shows "mapE f (enumerate 0 ms) = Inr (map g [0 ..< length ms])"
proof -
  have "\<And>p. p \<in> set (enumerate 0 ms) \<Longrightarrow> f p = Inr ((g \<circ> fst) p)"
  proof -
    fix p assume "p \<in> set (enumerate 0 ms)"
    then have "fst p < length ms" and "p = (fst p, ms ! fst p)"
      by (auto simp: in_set_enumerate_eq)
    with assms [of "fst p"] show "f p = Inr ((g \<circ> fst) p)" by simp
  qed
  then have "mapE f (enumerate 0 ms) = Inr (map (g \<circ> fst) (enumerate 0 ms))"
    by (rule mapE_Inr_map)
  moreover have "map (g \<circ> fst) (enumerate 0 ms) = map g (map fst (enumerate 0 ms))"
    by (simp only: map_map)
  moreover have "map fst (enumerate 0 ms) = [0 ..< length ms]" by (simp add: map_fst_enumerate)
  ultimately show ?thesis by (simp only:)
qed

lemma sum_list_sort_key:
  "sum_list (map f (sort_key k xs)) = (sum_list (map f xs) :: nat)"
proof (induction xs)
  case Nil
  then show ?case by simp
next
  case (Cons x xs)
  have "\<And>ys. sum_list (map f (insort_key k x ys)) = f x + sum_list (map f ys)"
  proof -
    fix ys show "sum_list (map f (insort_key k x ys)) = f x + sum_list (map f ys)"
      by (induction ys) auto
  qed
  with Cons show ?case by simp
qed

lemma map_of_sort_key_fst:
  assumes "distinct (map fst xs)"
  shows "map_of (sort_key fst xs) = map_of xs"
proof (rule ext)
  fix k
  have d: "distinct (map fst (sort_key fst xs))"
    using assms by (simp add: distinct_map)
  show "map_of (sort_key fst xs) k = map_of xs k"
  proof (cases "map_of xs k")
    case None
    then have "k \<notin> fst ` set xs" by (simp add: map_of_eq_None_iff)
    then have "k \<notin> fst ` set (sort_key fst xs)" by simp
    then have "map_of (sort_key fst xs) k = None" by (rule map_of_eq_None_iff [THEN iffD2])
    with None show ?thesis by simp
  next
    case (Some v)
    then have "(k, v) \<in> set xs" by (rule map_of_SomeD)
    then have "(k, v) \<in> set (sort_key fst xs)" by simp
    with d have "map_of (sort_key fst xs) k = Some v" by (simp add: map_of_eq_Some_iff)
    with Some show ?thesis by simp
  qed
qed

lemma recast_plain: "recast plain_env D t = t"
  by (simp add: recast_def plain_env_def)

lemma unravel_lists_round_trip:
  assumes ne: "ls \<noteq> []"
    and wf: "\<And>l. l \<in> set ls \<Longrightarrow> wf_tensor l \<and> bd \<le> length (shape l)"
    and small: "sum_list (map (ev bd) ls) < 2147483648"
    and c: "concatenate env (map m_flat (map (meta_of env bd) ls)) = Inr F"
  shows "unravel_list_batched env bd (map (meta_of env bd) ls)
           (cumsum32 (0 # map m_event_size (map (meta_of env bd) ls))) F
         = Inr (map (recast env (dtype F)) ls)"
    and "(\<And>l. l \<in> set ls \<Longrightarrow> r < prod_list (take bd (shape l))) \<Longrightarrow>
         unravel_list env bd (map (meta_of env bd) ls)
           (cumsum32 (0 # map m_event_size (map (meta_of env bd) ls))) (flat_row F r)
         = Inr (map (\<lambda>l. recast env (dtype F) (batch_entry bd r l)) ls)"
    and "dtype F = result_type env (map dtype ls)"
proof -
  define B where "B = take bd (shape (hd ls))"
  define D where "D = result_type env (map dtype ls)"
  let ?ms = "map (meta_of env bd) ls"
  let ?idx = "cumsum32 (0 # map m_event_size ?ms)"
  note C = concatenate_meta [OF ne c]
  have wfB: "\<And>l. l \<in> set ls \<Longrightarrow> wf_tensor l \<and> take bd (shape l) = B"
    using wf C(1) by (simp add: B_def)
  have lB: "length B = bd"
    using wf [of "hd ls"] ne by (simp add: B_def)
  have F: "F = \<lparr>shape = B @ [sum_list (map (ev bd) ls)], dtype = D,
                 data = map (cast env D) (concat (map (flat_rows bd ls) [0 ..< prod_list B]))\<rparr>"
    using C(2) by (simp add: B_def D_def flat_rows_def [abs_def])
  have dF: "dtype F = D" by (simp add: F)
  show "dtype F = result_type env (map dtype ls)" using dF by (simp add: D_def)
  have "\<And>i. i < length ?ms \<Longrightarrow>
      (case (i, ?ms ! i) of (i, m) \<Rightarrow> unravel_leaf env F bd (m_shape m) (?idx ! i) m)
      = Inr (recast env D (ls ! i))"
  proof -
    fix i assume "i < length ?ms"
    then have i: "i < length ls" by simp
    have "\<lparr>shape = shape (ls ! i), dtype = canonicalize_dtype env (dtype (ls ! i)),
           data = map (cast env (canonicalize_dtype env (dtype (ls ! i))))
                    (map (cast env D) (data (ls ! i)))\<rparr> = recast env D (ls ! i)"
      by (simp add: recast_def comp_def)
    with unravel_leaf_from_flat [OF wfB i small F]
    have "unravel_leaf env F (length B) (shape (ls ! i)) (?idx ! i) (meta_of env bd (ls ! i))
        = Inr (recast env D (ls ! i))"
      by (simp only:)
    then show "(case (i, ?ms ! i) of (i, m) \<Rightarrow> unravel_leaf env F bd (m_shape m) (?idx ! i) m)
        = Inr (recast env D (ls ! i))"
      using i by (simp add: lB meta_of_def)
  qed
  from mapE_enumerate [of ?ms "\<lambda>(i, m). unravel_leaf env F bd (m_shape m) (?idx ! i) m"
      "\<lambda>i. recast env D (ls ! i)", OF this]
  have "unravel_list_batched env bd ?ms ?idx F
      = Inr (map (\<lambda>i. recast env D (ls ! i)) [0 ..< length ls])"
    by (simp add: unravel_list_batched_def)
  moreover have "map (\<lambda>i. recast env D (ls ! i)) [0 ..< length ls] = map (recast env D) ls"
    by (rule nth_equalityI) simp_all
  ultimately show "unravel_list_batched env bd ?ms ?idx F = Inr (map (recast env (dtype F)) ls)"
    by (simp add: dF)
  show "unravel_list env bd ?ms ?idx (flat_row F r)
        = Inr (map (\<lambda>l. recast env (dtype F) (batch_entry bd r l)) ls)"
    if rr: "\<And>l. l \<in> set ls \<Longrightarrow> r < prod_list (take bd (shape l))"
  proof -
    have rB: "r < prod_list B" using rr [of "hd ls"] ne by (simp add: B_def)
    have "\<And>i. i < length ?ms \<Longrightarrow>
      (case (i, ?ms ! i) of (i, m) \<Rightarrow>
         unravel_leaf env (flat_row F r) 0 (drop bd (m_shape m)) (?idx ! i) m)
       = Inr (recast env D (batch_entry bd r (ls ! i)))"
    proof -
      fix i assume "i < length ?ms"
      then have i: "i < length ls" by simp
      have "\<lparr>shape = drop bd (shape (ls ! i)), dtype = canonicalize_dtype env (dtype (ls ! i)),
             data = map (cast env (canonicalize_dtype env (dtype (ls ! i))))
                      (map (cast env D) (seg bd (ls ! i) r))\<rparr>
          = recast env D (batch_entry bd r (ls ! i))"
        by (simp add: recast_def batch_entry_def comp_def)
      with unravel_leaf_from_row [OF wfB i rB small F]
      have "unravel_leaf env (flat_row F r) 0 (drop bd (shape (ls ! i))) (?idx ! i)
            (meta_of env bd (ls ! i)) = Inr (recast env D (batch_entry bd r (ls ! i)))"
        by (simp only:)
      then show "(case (i, ?ms ! i) of (i, m) \<Rightarrow>
         unravel_leaf env (flat_row F r) 0 (drop bd (m_shape m)) (?idx ! i) m)
       = Inr (recast env D (batch_entry bd r (ls ! i)))"
        using i by (simp add: meta_of_def)
    qed
    from mapE_enumerate [of ?ms
        "\<lambda>(i, m). unravel_leaf env (flat_row F r) 0 (drop bd (m_shape m)) (?idx ! i) m"
        "\<lambda>i. recast env D (batch_entry bd r (ls ! i))", OF this]
    have "unravel_list env bd ?ms ?idx (flat_row F r)
        = Inr (map (\<lambda>i. recast env D (batch_entry bd r (ls ! i))) [0 ..< length ls])"
      by (simp add: unravel_list_def)
    moreover have "map (\<lambda>i. recast env D (batch_entry bd r (ls ! i))) [0 ..< length ls]
        = map (\<lambda>l. recast env D (batch_entry bd r l)) ls"
      by (rule nth_equalityI) simp_all
    ultimately show ?thesis by (simp add: dF)
  qed
qed

lemma flat_row_whole:
  assumes "shape F = [T]" and "length (data F) = T"
  shows "flat_row F 0 = F"
  using assms by (simp add: flat_row_def row_of_def)

lemma batch_entry_whole: "wf_tensor l \<Longrightarrow> batch_entry 0 0 l = l"
  by (simp add: batch_entry_def seg_def ev_def wf_tensor_def)

text \<open>
  Claim C5, as amended.  For a dictionary with distinct keys whose leaves are well formed
  and have at least \<open>batch_dims\<close> axes, with a total flattened size below \<open>2^31\<close>: the
  batched unravel function applied to the flat array returns the dictionary (in key
  order, the same dictionary) with every leaf's shape kept, its dtype canonicalised, and
  each value cast to the flat array's dtype and from there to the leaf's canonical
  dtype (\<open>recast\<close>); the single unravel function applied to batch row \<open>r\<close> of the flat
  array returns the same of the leaves with their batch axes stripped at row \<open>r\<close>, and
  with \<open>batch_dims = 0\<close> applied to the flat array it returns what the batched one
  returns; the flat array's dtype is the result type of the leaves' dtypes; a dictionary
  with no leaves ravels to a vector of length zero.
\<close>

theorem ravel_unravel_round_trip:
  assumes rv: "ravel_pytree env x bd = Inr rv"
    and wf: "\<forall>(k, t) \<in> set x. wf_tensor t \<and> bd \<le> length (shape t)"
    and small: "sum_list (map (\<lambda>(k, t). prod_list (drop bd (shape t))) x) < 2147483648"
    and dist: "distinct (map fst x)"
  shows "unravel_pytree_batched env rv (r_flat rv)
           = Inr (map (\<lambda>(k, t). (k, recast env (dtype (r_flat rv)) t)) (sort_key fst x))
       \<and> map_of (sort_key fst x) = map_of x
       \<and> ((\<forall>(k, t) \<in> set x. r < prod_list (take bd (shape t))) \<longrightarrow>
            unravel_pytree env rv (flat_row (r_flat rv) r)
              = Inr (map (\<lambda>(k, t). (k, recast env (dtype (r_flat rv)) (batch_entry bd r t)))
                         (sort_key fst x)))
       \<and> (bd = 0 \<longrightarrow> unravel_pytree env rv (r_flat rv)
              = Inr (map (\<lambda>(k, t). (k, recast env (dtype (r_flat rv)) t)) (sort_key fst x)))
       \<and> (x \<noteq> [] \<longrightarrow>
            dtype (r_flat rv) = result_type env (map (\<lambda>(k, t). dtype t) (sort_key fst x)))
       \<and> (x = [] \<longrightarrow> shape (r_flat rv) = [0] \<and> data (r_flat rv) = [])"
proof -
  define s where "s = sort_key fst x"
  define ls where "ls = map snd s"
  define D where "D = dtype (r_flat rv)"
  have ss: "set s = set x" by (simp add: s_def)
  have sl: "set ls = snd ` set x" by (simp add: ls_def ss)
  have wfl: "\<forall>t \<in> snd ` set x. wf_tensor t" using wf by auto
  note R = ravel_pytree_Inr [OF rv wfl]
  have ms: "r_metadata rv = map (meta_of env bd) ls" using R(1) by (simp add: ls_def s_def)
  have td: "r_treedef rv = map fst s" using R(2) by (simp add: s_def)
  have bdq: "r_batch_dims rv = bd" using R(3) .
  have idx: "r_idx rv = cumsum32 (0 # map m_event_size (map (meta_of env bd) ls))"
    using R(4) ms by simp
  have unfl: "\<And>vs. length vs = length ls \<Longrightarrow> tree_unflatten (r_treedef rv) vs = Inr (zip (map fst s) vs)"
    by (simp add: tree_unflatten_def td ls_def)
  have mo: "map_of (sort_key fst x) = map_of x" using dist by (rule map_of_sort_key_fst)
  have wl: "\<And>l. l \<in> set ls \<Longrightarrow> wf_tensor l \<and> bd \<le> length (shape l)"
    using wf sl by auto
  have sm: "sum_list (map (ev bd) ls) < 2147483648"
  proof -
    have "sum_list (map (ev bd) ls) = sum_list (map (\<lambda>(k, t). prod_list (drop bd (shape t))) s)"
      by (simp add: ls_def comp_def ev_def case_prod_unfold)
    also have "\<dots> = sum_list (map (\<lambda>(k, t). prod_list (drop bd (shape t))) x)"
      unfolding s_def by (rule sum_list_sort_key)
    finally show ?thesis using small by simp
  qed
  have pairs: "zip (map fst s) (map f ls) = map (\<lambda>(k, t). (k, f t)) s" for f :: "tensor \<Rightarrow> tensor"
    by (simp add: ls_def zip_map_map case_prod_unfold zip_same_conv_map)
  show ?thesis
  proof (cases "x = []")
    case True
    then have e: "ls = []" "s = []" by (simp_all add: ls_def s_def)
    have f: "r_flat rv = empty_array" using R(7) True by simp
    have "unravel_pytree_batched env rv (r_flat rv) = Inr []"
      by (simp add: unravel_pytree_batched_def unravel_list_batched_def ms e td
          tree_unflatten_def bindE_def)
    moreover have "\<And>arr. unravel_pytree env rv arr = Inr []"
      by (simp add: unravel_pytree_def unravel_list_def ms e td tree_unflatten_def bindE_def)
    ultimately show ?thesis using True f by (simp add: empty_array_def)
  next
    case False
    then have ne: "ls \<noteq> []" using sl by (metis empty_is_image set_empty)
    have c: "concatenate env (map m_flat (map (meta_of env bd) ls)) = Inr (r_flat rv)"
      using R(6) [OF False] ms by simp
    note U = unravel_lists_round_trip [OF ne wl sm c]
    have b: "unravel_pytree_batched env rv (r_flat rv)
        = Inr (map (\<lambda>(k, t). (k, recast env D t)) s)"
      using U(1) unfl [of "map (recast env D) ls"] pairs [of "recast env D"]
      by (simp add: unravel_pytree_batched_def bdq ms idx bindE_def D_def)
    have single: "unravel_pytree env rv (flat_row (r_flat rv) r')
              = Inr (map (\<lambda>(k, t). (k, recast env D (batch_entry bd r' t))) s)"
      if "\<forall>(k, t) \<in> set x. r' < prod_list (take bd (shape t))" for r'
    proof -
      have "\<And>l. l \<in> set ls \<Longrightarrow> r' < prod_list (take bd (shape l))"
        using that sl by auto
      from unravel_lists_round_trip(2) [OF ne wl sm c this]
      have "unravel_list env bd (map (meta_of env bd) ls)
          (cumsum32 (0 # map m_event_size (map (meta_of env bd) ls))) (flat_row (r_flat rv) r')
          = Inr (map (\<lambda>l. recast env D (batch_entry bd r' l)) ls)" by (simp add: D_def)
      then show ?thesis
        using unfl [of "map (\<lambda>l. recast env D (batch_entry bd r' l)) ls"]
          pairs [of "\<lambda>l. recast env D (batch_entry bd r' l)"]
        by (simp add: unravel_pytree_def bdq ms idx bindE_def)
    qed
    have zero: "unravel_pytree env rv (r_flat rv) = Inr (map (\<lambda>(k, t). (k, recast env D t)) s)"
      if z: "bd = 0"
    proof -
      note C = concatenate_meta [OF ne c]
      have shF: "shape (r_flat rv) = [sum_list (map (ev bd) ls)]"
        using C(2) z by (simp add: tensor.defs)
      have wB: "\<And>l. l \<in> set ls \<Longrightarrow> wf_tensor l \<and> take bd (shape l) = []"
        using wl z by simp
      have lenF: "length (data (r_flat rv)) = sum_list (map (ev bd) ls)"
      proof -
        have "data (r_flat rv) = map (cast env (result_type env (map dtype ls)))
            (concat (map (flat_rows bd ls) [0 ..< prod_list []]))"
          using C(2) z by (simp add: flat_rows_def [abs_def] tensor.defs)
        then show ?thesis using flat_length [OF wB] by simp
      qed
      have w: "flat_row (r_flat rv) 0 = r_flat rv"
        using shF lenF by (rule flat_row_whole)
      have "\<forall>(k, t) \<in> set x. 0 < prod_list (take bd (shape t))" using z by simp
      from single [OF this] have "unravel_pytree env rv (r_flat rv)
          = Inr (map (\<lambda>(k, t). (k, recast env D (batch_entry bd 0 t))) s)"
        by (simp add: w)
      moreover have "map (\<lambda>(k, t). (k, recast env D (batch_entry bd 0 t))) s
          = map (\<lambda>(k, t). (k, recast env D t)) s"
      proof (rule map_cong [OF refl])
        fix p assume "p \<in> set s"
        then show "(case p of (k, t) \<Rightarrow> (k, recast env D (batch_entry bd 0 t)))
            = (case p of (k, t) \<Rightarrow> (k, recast env D t))"
          using wf ss z by (auto simp: batch_entry_whole)
      qed
      ultimately show ?thesis by simp
    qed
    have dt: "dtype (r_flat rv) = result_type env (map (\<lambda>(k, t). dtype t) s)"
      using U(3) by (simp add: ls_def comp_def case_prod_unfold)
    from b single [of r] zero mo dt False show ?thesis by (simp add: s_def D_def)
  qed
qed

lemma sort_two_sites: "sort_key fst two_sites = [(''a'', col2), (''b'', mat22)]"
  by (simp add: two_sites_def)

lemma ravel_two_sites: "ravel_pytree plain_env two_sites 1 = Inr two_sites_raveled"
  by (simp add: ravel_pytree_def tree_flatten_def sort_two_sites ravel_list_def leaf_metadata_def
      reshape_infer_def reshape_def bindE_def col2_def mat22_def flat23_def two_sites_raveled_def
      plain_env_def prod32_def wrap32_def cumsum32_def concatenate_def row_of_def Let_def
      upt_two)

lemma ravel_col2: "ravel_pytree plain_env [(''a'', col2)] 1 = Inr col2_raveled"
  by (simp add: ravel_pytree_def tree_flatten_def ravel_list_def leaf_metadata_def
      reshape_infer_def reshape_def bindE_def col2_def col2_raveled_def
      plain_env_def prod32_def wrap32_def cumsum32_def concatenate_def row_of_def Let_def
      upt_two)

lemma unravel_col2:
  "unravel_pytree plain_env col2_raveled (r_flat col2_raveled)
   = Inr [(''a'', \<lparr>shape = [1], dtype = ''float32'', data = [1]\<rparr>)]"
  by (simp add: unravel_pytree_def unravel_list_def unravel_leaf_def dynamic_slice_in_dim_def
      clamp_start_def reshape_def astype_def tree_unflatten_def bindE_def col2_raveled_def
      col2_def plain_env_def Let_def enumerate_eq_zip numeral_2_eq_2)

lemma float32_big: "float32_of_int 16777217 = 16777216" "float32_of_int 16777216 = 16777216"
  "float32_of_int 1 = 1"
  by (simp_all add: float32_of_int_def)

lemma ravel_mixed: "ravel_pytree x32_env mixed_tree 0 = Inr mixed_raveled"
  by (simp add: ravel_pytree_def tree_flatten_def mixed_tree_def ravel_list_def leaf_metadata_def
      reshape_infer_def reshape_def bindE_def big_int_def one_float_def mixed_raveled_def
      x32_env_def prod32_def wrap32_def cumsum32_def concatenate_def row_of_def Let_def
      float32_big)

lemma unravel_mixed:
  "unravel_pytree_batched x32_env mixed_raveled (r_flat mixed_raveled)
   = Inr [(''n'', \<lparr>shape = [1], dtype = ''int32'', data = [16777216]\<rparr>), (''w'', one_float)]"
  by (simp add: unravel_pytree_batched_def unravel_list_batched_def unravel_leaf_def
      dynamic_slice_in_dim_def clamp_start_def reshape_def astype_def tree_unflatten_def bindE_def
      mixed_raveled_def one_float_def x32_env_def Let_def enumerate_eq_zip upt_two float32_big)

lemma ravel_double: "ravel_pytree x32_env [(''d'', one_double)] 0 = Inr double_raveled"
  by (simp add: ravel_pytree_def tree_flatten_def ravel_list_def leaf_metadata_def
      reshape_infer_def reshape_def bindE_def one_double_def double_raveled_def
      x32_env_def prod32_def wrap32_def cumsum32_def concatenate_def row_of_def Let_def
      float32_big)

lemma unravel_double:
  "unravel_pytree_batched x32_env double_raveled (r_flat double_raveled)
   = Inr [(''d'', \<lparr>shape = [1], dtype = ''float32'', data = [1]\<rparr>)]"
  by (simp add: unravel_pytree_batched_def unravel_list_batched_def unravel_leaf_def
      dynamic_slice_in_dim_def clamp_start_def reshape_def astype_def tree_unflatten_def bindE_def
      double_raveled_def x32_env_def Let_def enumerate_eq_zip float32_big)

lemma ravel_huge: "ravel_pytree plain_env [(''h'', huge)] 0 = Inr huge_raveled"
  by (simp add: ravel_pytree_def tree_flatten_def ravel_list_def leaf_metadata_def
      reshape_infer_def reshape_def bindE_def huge_def huge_raveled_def
      plain_env_def prod32_def wrap32_def cumsum32_def concatenate_def row_of_def Let_def)

lemma unravel_huge:
  "unravel_pytree_batched plain_env huge_raveled (r_flat huge_raveled) = Inl SliceError"
  "unravel_pytree plain_env huge_raveled (r_flat huge_raveled) = Inl SliceError"
  by (simp_all add: unravel_pytree_batched_def unravel_list_batched_def unravel_pytree_def
      unravel_list_def unravel_leaf_def dynamic_slice_in_dim_def bindE_def huge_raveled_def
      enumerate_eq_zip)

text \<open>
  Claim C5 as stated fails in four ways.  For the single variant when \<open>batch_dims = 1\<close>:
  one site with two particles of one element each ravels to a \<open>2 \<times> 1\<close> matrix, and the
  single unravel function applied to that matrix slices its particle axis and returns
  the first particle's value alone.  For the values: an \<open>int32\<close> leaf holding
  \<open>2^24 + 1\<close> raveled together with a \<open>float32\<close> leaf comes back holding \<open>2^24\<close>.  For
  the dtypes: a \<open>float64\<close> leaf comes back as \<open>float32\<close>.  For the sizes: for a leaf of
  \<open>2^31\<close> elements the 32-bit event size wraps to \<open>- 2^31\<close>, and the unravel function
  raises.
\<close>

theorem round_trip_is_not_exact:
  "ravel_pytree plain_env [(''a'', col2)] 1 = Inr col2_raveled
   \<and> unravel_pytree plain_env col2_raveled (r_flat col2_raveled)
       = Inr [(''a'', \<lparr>shape = [1], dtype = ''float32'', data = [1]\<rparr>)]
   \<and> unravel_pytree plain_env col2_raveled (r_flat col2_raveled) \<noteq> Inr [(''a'', col2)]
   \<and> ravel_pytree x32_env mixed_tree 0 = Inr mixed_raveled
   \<and> unravel_pytree_batched x32_env mixed_raveled (r_flat mixed_raveled)
       = Inr [(''n'', \<lparr>shape = [1], dtype = ''int32'', data = [16777216]\<rparr>), (''w'', one_float)]
   \<and> unravel_pytree_batched x32_env mixed_raveled (r_flat mixed_raveled) \<noteq> Inr mixed_tree
   \<and> ravel_pytree x32_env [(''d'', one_double)] 0 = Inr double_raveled
   \<and> unravel_pytree_batched x32_env double_raveled (r_flat double_raveled)
       = Inr [(''d'', \<lparr>shape = [1], dtype = ''float32'', data = [1]\<rparr>)]
   \<and> unravel_pytree_batched x32_env double_raveled (r_flat double_raveled)
       \<noteq> Inr [(''d'', one_double)]
   \<and> wf_tensor huge
   \<and> ravel_pytree plain_env [(''h'', huge)] 0 = Inr huge_raveled
   \<and> unravel_pytree_batched plain_env huge_raveled (r_flat huge_raveled) = Inl SliceError"
proof -
  have n1: "unravel_pytree plain_env col2_raveled (r_flat col2_raveled) \<noteq> Inr [(''a'', col2)]"
    unfolding unravel_col2 by (simp add: col2_def)
  have n2: "unravel_pytree_batched x32_env mixed_raveled (r_flat mixed_raveled) \<noteq> Inr mixed_tree"
    unfolding unravel_mixed by (simp add: mixed_tree_def big_int_def)
  have n3: "unravel_pytree_batched x32_env double_raveled (r_flat double_raveled)
       \<noteq> Inr [(''d'', one_double)]"
    unfolding unravel_double by (simp add: one_double_def)
  have w: "wf_tensor huge" by (simp add: wf_tensor_def huge_def)
  from ravel_col2 unravel_col2 n1 ravel_mixed unravel_mixed n2 ravel_double unravel_double n3
    w ravel_huge unravel_huge(1)
  show ?thesis by blast
qed

text \<open>
  The amended claim C5 at the two sites of two particles, with batch row 1, where no
  cast changes a value and the dictionary comes back as it was; and at the dictionary
  of an \<open>int32\<close> and a \<open>float32\<close> leaf, where \<open>2^24 + 1\<close> comes back as \<open>2^24\<close>.
\<close>

theorem ravel_unravel_round_trip_witness:
  "ravel_pytree plain_env two_sites 1 = Inr two_sites_raveled
   \<and> wf_tensor col2 \<and> wf_tensor mat22 \<and> distinct (map fst two_sites)
   \<and> unravel_pytree_batched plain_env two_sites_raveled flat23 = Inr [(''a'', col2), (''b'', mat22)]
   \<and> map_of [(''a'', col2), (''b'', mat22)] = map_of two_sites
   \<and> flat_row flat23 1 = \<lparr>shape = [3], dtype = ''float32'', data = [2, 5, 6]\<rparr>
   \<and> unravel_pytree plain_env two_sites_raveled (flat_row flat23 1)
       = Inr [(''a'', \<lparr>shape = [1], dtype = ''float32'', data = [2]\<rparr>),
              (''b'', \<lparr>shape = [2], dtype = ''float32'', data = [5, 6]\<rparr>)]
   \<and> ravel_pytree x32_env mixed_tree 0 = Inr mixed_raveled
   \<and> wf_tensor big_int \<and> wf_tensor one_float \<and> distinct (map fst mixed_tree)
   \<and> unravel_pytree_batched x32_env mixed_raveled (r_flat mixed_raveled)
       = Inr [(''n'', \<lparr>shape = [1], dtype = ''int32'', data = [16777216]\<rparr>), (''w'', one_float)]"
proof -
  have wf: "\<forall>(k, t) \<in> set two_sites. wf_tensor t \<and> 1 \<le> length (shape t)"
    by (simp add: two_sites_def wf_tensor_def col2_def mat22_def)
  have small: "sum_list (map (\<lambda>(k, t). prod_list (drop 1 (shape t))) two_sites) < 2147483648"
    by (simp add: two_sites_def col2_def mat22_def)
  have dist: "distinct (map fst two_sites)" by (simp add: two_sites_def)
  have rows: "\<forall>(k, t) \<in> set two_sites. 1 < prod_list (take 1 (shape t))"
    by (simp add: two_sites_def col2_def mat22_def)
  have fl: "r_flat two_sites_raveled = flat23" by (simp add: two_sites_raveled_def)
  have be: "map (\<lambda>(k, t). (k, batch_entry 1 1 t)) [(''a'', col2), (''b'', mat22)]
      = [(''a'', \<lparr>shape = [1], dtype = ''float32'', data = [2]\<rparr>),
         (''b'', \<lparr>shape = [2], dtype = ''float32'', data = [5, 6]\<rparr>)]"
    by (simp add: batch_entry_def seg_def ev_def col2_def mat22_def)
  have fr: "flat_row flat23 1 = \<lparr>shape = [3], dtype = ''float32'', data = [2, 5, 6]\<rparr>"
    by (simp add: flat_row_def row_of_def flat23_def)
  have wfs: "wf_tensor col2 \<and> wf_tensor mat22" by (simp add: wf_tensor_def col2_def mat22_def)
  from ravel_unravel_round_trip [OF ravel_two_sites wf small dist, of 1] rows
  have "unravel_pytree_batched plain_env two_sites_raveled flat23 = Inr [(''a'', col2), (''b'', mat22)]
      \<and> map_of [(''a'', col2), (''b'', mat22)] = map_of two_sites
      \<and> unravel_pytree plain_env two_sites_raveled (flat_row flat23 1)
          = Inr (map (\<lambda>(k, t). (k, batch_entry 1 1 t)) [(''a'', col2), (''b'', mat22)])"
    unfolding fl sort_two_sites recast_plain by simp
  then have plain: "unravel_pytree_batched plain_env two_sites_raveled flat23
        = Inr [(''a'', col2), (''b'', mat22)]
      \<and> map_of [(''a'', col2), (''b'', mat22)] = map_of two_sites
      \<and> unravel_pytree plain_env two_sites_raveled (flat_row flat23 1)
          = Inr [(''a'', \<lparr>shape = [1], dtype = ''float32'', data = [2]\<rparr>),
                 (''b'', \<lparr>shape = [2], dtype = ''float32'', data = [5, 6]\<rparr>)]"
    unfolding be .
  have wfm: "\<forall>(k, t) \<in> set mixed_tree. wf_tensor t \<and> 0 \<le> length (shape t)"
    by (simp add: mixed_tree_def wf_tensor_def big_int_def one_float_def)
  have smallm: "sum_list (map (\<lambda>(k, t). prod_list (drop 0 (shape t))) mixed_tree) < 2147483648"
    by (simp add: mixed_tree_def big_int_def one_float_def)
  have distm: "distinct (map fst mixed_tree)" by (simp add: mixed_tree_def)
  have wfm2: "wf_tensor big_int \<and> wf_tensor one_float"
    by (simp add: wf_tensor_def big_int_def one_float_def)
  have rc: "map (\<lambda>(k, t). (k, recast x32_env (dtype (r_flat mixed_raveled)) t)) (sort_key fst mixed_tree)
      = [(''n'', \<lparr>shape = [1], dtype = ''int32'', data = [16777216]\<rparr>), (''w'', one_float)]"
    by (simp add: mixed_tree_def recast_def x32_env_def mixed_raveled_def big_int_def
        one_float_def float32_big)
  from ravel_unravel_round_trip [OF ravel_mixed wfm smallm distm, THEN conjunct1]
  have mixed: "unravel_pytree_batched x32_env mixed_raveled (r_flat mixed_raveled)
       = Inr [(''n'', \<lparr>shape = [1], dtype = ''int32'', data = [16777216]\<rparr>), (''w'', one_float)]"
    unfolding rc .
  from ravel_two_sites wfs dist plain fr ravel_mixed wfm2 distm mixed
  show ?thesis by blast
qed

lemma mapE_if:
  assumes "\<And>x. x \<in> set xs \<Longrightarrow> f x = (if P x then Inl e else Inr (g x))"
  shows "mapE f xs = (if \<exists>x \<in> set xs. P x then Inl e else Inr (map g xs))"
  using assms by (induction xs) auto

lemma mapE_map: "mapE f (map h xs) = mapE (\<lambda>x. f (h x)) xs"
  by (induction xs) (auto split: sum.splits)

lemma enumerate_map_snd:
  "enumerate n (map h xs) = map (\<lambda>(i, x). (i, h x)) (enumerate n xs)"
  by (induction xs arbitrary: n) auto

lemma unravel_lists_result:
  assumes sh: "shape arr = pre @ [L]"
    and len: "length (data arr) = prod_list pre * L"
    and small: "\<And>l. l \<in> set ls \<Longrightarrow> prod_list (drop bd (shape l)) < 2147483648"
    and ns: "\<And>l. l \<in> set ls \<Longrightarrow>
           prod_list (nsf (meta_of env bd l)) = prod_list pre * prod_list (drop bd (shape l))"
  shows "mapE (\<lambda>(i, m). unravel_leaf env arr (length pre) (nsf m) (idx ! i) m)
              (enumerate 0 (map (meta_of env bd) ls))
         = (if \<exists>l \<in> set ls. L < prod_list (drop bd (shape l)) then Inl SliceError
            else Inr (map (\<lambda>(i, l). read_leaf env arr pre L (nsf (meta_of env bd l)) (idx ! i) bd l)
                          (enumerate 0 ls)))"
proof -
  let ?f = "\<lambda>p. case (case p of (i, l) \<Rightarrow> (i, meta_of env bd l)) of
                   (i, m) \<Rightarrow> unravel_leaf env arr (length pre) (nsf m) (idx ! i) m"
  let ?g = "\<lambda>(i, l). read_leaf env arr pre L (nsf (meta_of env bd l)) (idx ! i) bd l"
  let ?P = "\<lambda>(i :: nat, l). L < prod_list (drop bd (shape l))"
  have each: "?f p = (if ?P p then Inl SliceError else Inr (?g p))"
    if "p \<in> set (enumerate 0 ls)" for p
  proof -
    obtain i l where p: "p = (i, l)" by (cases p) auto
    with that have m: "l \<in> set ls" by (auto simp: in_set_enumerate_eq)
    show ?thesis
      by (simp add: p unravel_leaf_meta [OF sh len small [OF m] ns [OF m]] read_leaf_def)
  qed
  have "mapE (\<lambda>(i, m). unravel_leaf env arr (length pre) (nsf m) (idx ! i) m)
              (enumerate 0 (map (meta_of env bd) ls)) = mapE ?f (enumerate 0 ls)"
    by (simp only: enumerate_map_snd mapE_map)
  also have "\<dots> = (if \<exists>p \<in> set (enumerate 0 ls). ?P p then Inl SliceError
                    else Inr (map ?g (enumerate 0 ls)))"
    using each by (rule mapE_if)
  also have "(\<exists>p \<in> set (enumerate 0 ls). ?P p) \<longleftrightarrow> (\<exists>l \<in> set ls. L < prod_list (drop bd (shape l)))"
    unfolding bex_enumerate by (simp add: case_prod_unfold) (metis in_set_conv_nth)
  finally show ?thesis .
qed

lemma zip_keys_enumerate:
  "zip (map fst s) (map (\<lambda>(i, l). G i l) (enumerate 0 (map snd s)))
   = map (\<lambda>(i, k, t). (k, G i t)) (enumerate 0 s)"
  by (rule nth_equalityI) (simp_all add: nth_enumerate_eq case_prod_unfold)

lemma meta_event_sizes_leafwise:
  assumes "\<And>l. l \<in> set ls \<Longrightarrow> prod_list (drop bd (shape l)) < 2147483648"
  shows "map m_event_size (map (meta_of env bd) ls) = map (\<lambda>l. int (prod_list (drop bd (shape l)))) ls"
  using assms by (simp add: meta_of_def prod32_small)

text \<open>
  Claim C7, as amended.  The unravel functions make no check of the array's length against
  the recorded total.  Applied to a well-formed one-dimensional array of length \<open>L\<close>
  (the single variant), or to an array whose leading axes are the leaves' batch axes and
  whose last axis has length \<open>L\<close> (the batched variant), they raise exactly when \<open>L\<close> is
  smaller than the event size of some leaf.  Otherwise they return, for the leaf
  recorded at position \<open>i\<close>, as many elements of the array (of each of its rows) as the
  leaf's event size, read from the recorded offset \<open>r_idx ! i\<close> clamped to
  \<open>L\<close> minus the event size (\<open>read_leaf\<close>, \<open>clamp_start\<close>).  The recorded offsets are
  the 32-bit cumulative sums of the event sizes, and below \<open>2^31\<close> in total the sums
  themselves: so an array at least as long as the total is read at the recorded offsets
  and its elements past the total are not read, and a shorter one is read at smaller
  offsets.  Event sizes are below \<open>2^31\<close>, so the 32-bit sizes do not wrap.
\<close>

theorem unravel_reads_each_leaf_at_its_clamped_offset:
  assumes rv: "ravel_pytree env x bd = Inr rv"
    and wf: "\<forall>(k, t) \<in> set x. wf_tensor t \<and> prod_list (drop bd (shape t)) < 2147483648"
    and arr: "wf_tensor arr"
  shows "(shape arr = [L] \<longrightarrow>
           unravel_pytree env rv arr =
             (if \<exists>(k, t) \<in> set x. L < prod_list (drop bd (shape t)) then Inl SliceError
              else Inr (map (\<lambda>(i, k, t).
                               (k, read_leaf env arr [] L (drop bd (shape t)) (r_idx rv ! i) bd t))
                            (enumerate 0 (sort_key fst x)))))
       \<and> (length pre = bd \<and> (\<forall>(k, t) \<in> set x. take bd (shape t) = pre) \<and> shape arr = pre @ [L] \<longrightarrow>
           unravel_pytree_batched env rv arr =
             (if \<exists>(k, t) \<in> set x. L < prod_list (drop bd (shape t)) then Inl SliceError
              else Inr (map (\<lambda>(i, k, t).
                               (k, read_leaf env arr pre L (shape t) (r_idx rv ! i) bd t))
                            (enumerate 0 (sort_key fst x)))))
       \<and> r_idx rv = cumsum32 (0 # map (\<lambda>(k, t). int (prod_list (drop bd (shape t))))
                                      (sort_key fst x))
       \<and> (sum_list (map (\<lambda>(k, t). prod_list (drop bd (shape t))) x) < 2147483648 \<longrightarrow>
            (\<forall>i \<le> length x. r_idx rv ! i
               = int (sum_list (take i (map (\<lambda>(k, t). prod_list (drop bd (shape t)))
                                            (sort_key fst x))))))"
proof -
  define s where "s = sort_key fst x"
  define ls where "ls = map snd s"
  have ss: "set s = set x" by (simp add: s_def)
  have sl: "set ls = snd ` set x" by (simp add: ls_def ss)
  have wfl: "\<forall>t \<in> snd ` set x. wf_tensor t" using wf by auto
  note R = ravel_pytree_Inr [OF rv wfl]
  have ms: "r_metadata rv = map (meta_of env bd) ls" using R(1) by (simp add: ls_def s_def)
  have td: "r_treedef rv = map fst s" using R(2) by (simp add: s_def)
  have small: "\<And>l. l \<in> set ls \<Longrightarrow> prod_list (drop bd (shape l)) < 2147483648"
    using wf sl by auto
  have rhs: "(\<exists>l \<in> set ls. L < prod_list (drop bd (shape l))) \<longleftrightarrow>
             (\<exists>(k, t) \<in> set x. L < prod_list (drop bd (shape t)))"
    unfolding sl by force
  have bdq: "r_batch_dims rv = bd" using R(3) .
  have unfl: "\<And>vs. length vs = length ls \<Longrightarrow> tree_unflatten (r_treedef rv) vs = Inr (zip (map fst s) vs)"
    by (simp add: tree_unflatten_def td ls_def)
  have single: "unravel_pytree env rv arr =
             (if \<exists>(k, t) \<in> set x. L < prod_list (drop bd (shape t)) then Inl SliceError
              else Inr (map (\<lambda>(i, k, t).
                               (k, read_leaf env arr [] L (drop bd (shape t)) (r_idx rv ! i) bd t))
                            (enumerate 0 s)))" if sh: "shape arr = [L]"
  proof -
    have sh': "shape arr = [] @ [L]" using sh by simp
    have len: "length (data arr) = prod_list [] * L" using arr sh by (simp add: wf_tensor_def)
    have ns: "\<And>l. l \<in> set ls \<Longrightarrow> prod_list ((\<lambda>m. drop bd (m_shape m)) (meta_of env bd l))
          = prod_list [] * prod_list (drop bd (shape l))"
      by (simp add: meta_of_def)
    have u: "unravel_list env bd (r_metadata rv) (r_idx rv) arr =
          (if \<exists>l \<in> set ls. L < prod_list (drop bd (shape l)) then Inl SliceError
           else Inr (map (\<lambda>(i, l). read_leaf env arr [] L (drop bd (shape l)) (r_idx rv ! i) bd l)
                          (enumerate 0 ls)))"
      using unravel_lists_result [OF sh' len small ns, of ls "r_idx rv"]
      by (simp add: unravel_list_def ms meta_of_def)
    show ?thesis
      unfolding unravel_pytree_def bdq u rhs
      using unfl [of "map (\<lambda>(i, l). read_leaf env arr [] L (drop bd (shape l)) (r_idx rv ! i) bd l)
                          (enumerate 0 ls)"]
        zip_keys_enumerate [of s "\<lambda>i l. read_leaf env arr [] L (drop bd (shape l)) (r_idx rv ! i) bd l"]
      by (simp add: bindE_def ls_def)
  qed
  have batched: "unravel_pytree_batched env rv arr =
             (if \<exists>(k, t) \<in> set x. L < prod_list (drop bd (shape t)) then Inl SliceError
              else Inr (map (\<lambda>(i, k, t).
                               (k, read_leaf env arr pre L (shape t) (r_idx rv ! i) bd t))
                            (enumerate 0 s)))"
    if lp: "length pre = bd" and tk: "\<forall>(k, t) \<in> set x. take bd (shape t) = pre"
      and sh: "shape arr = pre @ [L]"
  proof -
    have len: "length (data arr) = prod_list pre * L" using arr sh by (simp add: wf_tensor_def)
    have ns: "\<And>l. l \<in> set ls \<Longrightarrow> prod_list (m_shape (meta_of env bd l))
          = prod_list pre * prod_list (drop bd (shape l))"
    proof -
      fix l assume "l \<in> set ls"
      then have "take bd (shape l) = pre" using tk sl by auto
      then show "prod_list (m_shape (meta_of env bd l)) = prod_list pre * prod_list (drop bd (shape l))"
        using prod_list_take_drop [of bd "shape l"] by (simp add: meta_of_def)
    qed
    have u: "unravel_list_batched env bd (r_metadata rv) (r_idx rv) arr =
          (if \<exists>l \<in> set ls. L < prod_list (drop bd (shape l)) then Inl SliceError
           else Inr (map (\<lambda>(i, l). read_leaf env arr pre L (shape l) (r_idx rv ! i) bd l)
                          (enumerate 0 ls)))"
      using unravel_lists_result [OF sh len small ns, of ls "r_idx rv"]
      by (simp add: unravel_list_batched_def ms lp meta_of_def)
    show ?thesis
      unfolding unravel_pytree_batched_def bdq u rhs
      using unfl [of "map (\<lambda>(i, l). read_leaf env arr pre L (shape l) (r_idx rv ! i) bd l)
                          (enumerate 0 ls)"]
        zip_keys_enumerate [of s "\<lambda>i l. read_leaf env arr pre L (shape l) (r_idx rv ! i) bd l"]
      by (simp add: bindE_def ls_def)
  qed
  have "map (\<lambda>l. int (prod_list (drop bd (shape l)))) ls
      = map (\<lambda>(k, t). int (prod_list (drop bd (shape t)))) s"
    by (simp add: ls_def comp_def case_prod_unfold)
  with meta_event_sizes_leafwise [OF small, of ls env]
  have "map m_event_size (map (meta_of env bd) ls)
      = map (\<lambda>(k, t). int (prod_list (drop bd (shape t)))) s"
    by (simp only:)
  then have idx: "r_idx rv = cumsum32 (0 # map (\<lambda>(k, t). int (prod_list (drop bd (shape t)))) s)"
    using R(4) by (simp only: ms)
  have offs: "r_idx rv ! i = int (sum_list (take i (map (\<lambda>(k, t). prod_list (drop bd (shape t))) s)))"
    if sm: "sum_list (map (\<lambda>(k, t). prod_list (drop bd (shape t))) x) < 2147483648"
      and i: "i \<le> length x" for i
  proof -
    have e: "map (ev bd) ls = map (\<lambda>(k, t). prod_list (drop bd (shape t))) s"
      by (simp add: ls_def comp_def ev_def case_prod_unfold)
    have "sum_list (map (ev bd) ls) = sum_list (map (\<lambda>(k, t). prod_list (drop bd (shape t))) x)"
      unfolding e s_def by (rule sum_list_sort_key)
    then have sm': "sum_list (map (ev bd) ls) < 2147483648" using sm by simp
    have i': "i \<le> length ls" using i by (simp add: ls_def s_def)
    from leaves_idx_nth [OF sm' i', of env] show ?thesis
      using R(4) by (simp add: ms e)
  qed
  from single batched idx offs show ?thesis unfolding s_def by blast
qed

lemma sort_pair_tree: "sort_key fst pair_tree = [(''a'', vec2), (''b'', short1)]"
  by (simp add: pair_tree_def)

lemma ravel_pair: "ravel_pytree plain_env pair_tree 0 = Inr pair_raveled"
  by (simp add: ravel_pytree_def tree_flatten_def sort_pair_tree ravel_list_def leaf_metadata_def
      reshape_infer_def reshape_def bindE_def vec2_def short1_def flat3_def pair_raveled_def
      plain_env_def prod32_def wrap32_def cumsum32_def concatenate_def row_of_def Let_def)

lemma unravel_pair_long4:
  "unravel_pytree plain_env pair_raveled long4
       = Inr [(''a'', \<lparr>shape = [2], dtype = ''float32'', data = [10, 20]\<rparr>),
              (''b'', \<lparr>shape = [1], dtype = ''float32'', data = [30]\<rparr>)]"
  "unravel_pytree_batched plain_env pair_raveled long4
       = Inr [(''a'', \<lparr>shape = [2], dtype = ''float32'', data = [10, 20]\<rparr>),
              (''b'', \<lparr>shape = [1], dtype = ''float32'', data = [30]\<rparr>)]"
  by (simp_all add: unravel_pytree_def unravel_pytree_batched_def unravel_list_def
      unravel_list_batched_def unravel_leaf_def dynamic_slice_in_dim_def clamp_start_def
      reshape_def astype_def tree_unflatten_def bindE_def pair_raveled_def long4_def
      plain_env_def Let_def enumerate_eq_zip upt_two)

lemma unravel_pair_short2:
  "unravel_pytree plain_env pair_raveled short2
       = Inr [(''a'', \<lparr>shape = [2], dtype = ''float32'', data = [10, 20]\<rparr>),
              (''b'', \<lparr>shape = [1], dtype = ''float32'', data = [20]\<rparr>)]"
  "unravel_pytree_batched plain_env pair_raveled short2
       = Inr [(''a'', \<lparr>shape = [2], dtype = ''float32'', data = [10, 20]\<rparr>),
              (''b'', \<lparr>shape = [1], dtype = ''float32'', data = [20]\<rparr>)]"
  by (simp_all add: unravel_pytree_def unravel_pytree_batched_def unravel_list_def
      unravel_list_batched_def unravel_leaf_def dynamic_slice_in_dim_def clamp_start_def
      reshape_def astype_def tree_unflatten_def bindE_def pair_raveled_def short2_def
      plain_env_def Let_def enumerate_eq_zip upt_two)

text \<open>
  Claim C7 as stated fails: the dictionary of a two-element and a one-element vector is
  raveled with total size 3; both unravel functions accept an array of length 4,
  returning its first three elements, and an array of length 2, whose second element
  they return twice.  And what decides is not the array's length alone once a 32-bit
  event size wraps: for the leaf of \<open>2^31\<close> elements both raise on the flat array itself,
  which holds every element of the leaf.
\<close>

theorem unravel_accepts_other_lengths:
  "ravel_pytree plain_env pair_tree 0 = Inr pair_raveled
   \<and> shape (r_flat pair_raveled) = [3] \<and> shape long4 = [4] \<and> shape short2 = [2]
   \<and> unravel_pytree plain_env pair_raveled long4
       = Inr [(''a'', \<lparr>shape = [2], dtype = ''float32'', data = [10, 20]\<rparr>),
              (''b'', \<lparr>shape = [1], dtype = ''float32'', data = [30]\<rparr>)]
   \<and> unravel_pytree_batched plain_env pair_raveled long4
       = Inr [(''a'', \<lparr>shape = [2], dtype = ''float32'', data = [10, 20]\<rparr>),
              (''b'', \<lparr>shape = [1], dtype = ''float32'', data = [30]\<rparr>)]
   \<and> unravel_pytree plain_env pair_raveled short2
       = Inr [(''a'', \<lparr>shape = [2], dtype = ''float32'', data = [10, 20]\<rparr>),
              (''b'', \<lparr>shape = [1], dtype = ''float32'', data = [20]\<rparr>)]
   \<and> unravel_pytree_batched plain_env pair_raveled short2
       = Inr [(''a'', \<lparr>shape = [2], dtype = ''float32'', data = [10, 20]\<rparr>),
              (''b'', \<lparr>shape = [1], dtype = ''float32'', data = [20]\<rparr>)]
   \<and> ravel_pytree plain_env [(''h'', huge)] 0 = Inr huge_raveled
   \<and> wf_tensor huge \<and> wf_tensor (r_flat huge_raveled)
   \<and> shape (r_flat huge_raveled) = [2147483648]
   \<and> unravel_pytree plain_env huge_raveled (r_flat huge_raveled) = Inl SliceError
   \<and> unravel_pytree_batched plain_env huge_raveled (r_flat huge_raveled) = Inl SliceError"
proof -
  have "shape (r_flat pair_raveled) = [3]" "shape long4 = [4]" "shape short2 = [2]"
    by (simp_all add: pair_raveled_def flat3_def long4_def short2_def)
  moreover have "wf_tensor huge" "wf_tensor (r_flat huge_raveled)"
    "shape (r_flat huge_raveled) = [2147483648]"
    by (simp_all add: wf_tensor_def huge_def huge_raveled_def)
  ultimately show ?thesis
    using ravel_pair unravel_pair_long4 unravel_pair_short2 ravel_huge unravel_huge by blast
qed

text \<open>
  The amended claim C7 at the same dictionary: an array of length 1 is shorter than the
  first leaf, and both unravel functions raise; an array of length 2 holds each leaf,
  and the second leaf is read at offset 1, not at the recorded offset 2.
\<close>

theorem unravel_reads_each_leaf_at_its_clamped_offset_witness:
  "ravel_pytree plain_env pair_tree 0 = Inr pair_raveled
   \<and> wf_tensor vec2 \<and> wf_tensor short1 \<and> wf_tensor short2
   \<and> shape short1 = [1] \<and> shape short2 = [2]
   \<and> unravel_pytree plain_env pair_raveled short1 = Inl SliceError
   \<and> unravel_pytree_batched plain_env pair_raveled short1 = Inl SliceError
   \<and> unravel_pytree plain_env pair_raveled short2
       = Inr [(''a'', \<lparr>shape = [2], dtype = ''float32'', data = [10, 20]\<rparr>),
              (''b'', \<lparr>shape = [1], dtype = ''float32'', data = [20]\<rparr>)]
   \<and> unravel_pytree_batched plain_env pair_raveled short2
       = Inr [(''a'', \<lparr>shape = [2], dtype = ''float32'', data = [10, 20]\<rparr>),
              (''b'', \<lparr>shape = [1], dtype = ''float32'', data = [20]\<rparr>)]
   \<and> r_idx pair_raveled = [0, 2, 3]"
proof -
  have wf: "\<forall>(k, t) \<in> set pair_tree. wf_tensor t \<and> prod_list (drop 0 (shape t)) < 2147483648"
    by (simp add: pair_tree_def wf_tensor_def vec2_def short1_def)
  have w: "wf_tensor vec2" "wf_tensor short1" "wf_tensor short2"
    by (simp_all add: wf_tensor_def vec2_def short1_def short2_def)
  have sh1: "shape short1 = [1]" and sh2: "shape short2 = [2]"
    by (simp_all add: short1_def short2_def)
  have pre: "length ([] :: nat list) = 0 \<and> (\<forall>(k, t) \<in> set pair_tree. take 0 (shape t) = [])"
    by simp
  have ex1: "\<exists>(k, t) \<in> set pair_tree. 1 < prod_list (drop 0 (shape t))"
    by (simp add: pair_tree_def vec2_def)
  have ex2: "\<not> (\<exists>(k, t) \<in> set pair_tree. 2 < prod_list (drop 0 (shape t)))"
    by (simp add: pair_tree_def vec2_def short1_def)
  note T1 = unravel_reads_each_leaf_at_its_clamped_offset [OF ravel_pair wf w(2), of 1 "[]"]
  note T2 = unravel_reads_each_leaf_at_its_clamped_offset [OF ravel_pair wf w(3), of 2 "[]"]
  have s1: "unravel_pytree plain_env pair_raveled short1 = Inl SliceError"
    using T1 [THEN conjunct1, THEN mp, OF sh1] ex1 by simp
  have b1: "unravel_pytree_batched plain_env pair_raveled short1 = Inl SliceError"
    using T1 [THEN conjunct2, THEN conjunct1, THEN mp] pre sh1 ex1 by simp
  have rd: "map (\<lambda>(i, k, t). (k, read_leaf plain_env short2 [] 2 (shape t) (r_idx pair_raveled ! i) 0 t))
              (enumerate 0 (sort_key fst pair_tree))
       = [(''a'', \<lparr>shape = [2], dtype = ''float32'', data = [10, 20]\<rparr>),
          (''b'', \<lparr>shape = [1], dtype = ''float32'', data = [20]\<rparr>)]"
    by (simp add: sort_pair_tree read_leaf_def clamp_start_def pair_raveled_def short2_def
        vec2_def short1_def plain_env_def)
  have s2: "unravel_pytree plain_env pair_raveled short2
       = Inr [(''a'', \<lparr>shape = [2], dtype = ''float32'', data = [10, 20]\<rparr>),
              (''b'', \<lparr>shape = [1], dtype = ''float32'', data = [20]\<rparr>)]"
    using T2 [THEN conjunct1, THEN mp, OF sh2] ex2 rd by simp
  have b2: "unravel_pytree_batched plain_env pair_raveled short2
       = Inr [(''a'', \<lparr>shape = [2], dtype = ''float32'', data = [10, 20]\<rparr>),
              (''b'', \<lparr>shape = [1], dtype = ''float32'', data = [20]\<rparr>)]"
    using T2 [THEN conjunct2, THEN conjunct1, THEN mp] pre sh2 ex2 rd by simp
  have i: "r_idx pair_raveled = [0, 2, 3]" by (simp add: pair_raveled_def)
  from ravel_pair w sh1 sh2 s1 b1 s2 b2 i show ?thesis by blast
qed

section \<open>Properties of the force calculator\<close>

lemma split_params_partition:
  assumes "split_params self params = Inr (m, g)"
  shows "fst ` set m \<inter> fst ` set g = {}"
    and "fst ` set m \<union> fst ` set g = fst ` set params"
    and "set m \<inter> set g = {}" and "set m \<union> set g = set params"
proof -
  show "set m \<inter> set g = {}" and "set m \<union> set g = set params"
    using assms by (auto simp: split_params_def split: option.splits if_splits)
  show "fst ` set m \<inter> fst ` set g = {}"
    using assms by (auto simp: split_params_def split: option.splits if_splits)
  show "fst ` set m \<union> fst ` set g = fst ` set params"
    using assms by (force simp: split_params_def split: option.splits if_splits)
qed

lemma demo_env_fields:
  "np demo_env = plain_env"
  "split demo_env k n = map (\<lambda>i. n * k + i + 1) [0 ..< n]"
  "model_log_density demo_env ms gs a params = Inr (sum_list (concat (map (\<lambda>(k, v). data v) params)))"
  "optim_get_params demo_env s = s"
  "optim_init demo_env p = p"
  "optim_update demo_env grads s = Inr s"
  "log_kernel_fn demo_env particles x y = sum_list (map2 (*) x y) + 1"
  "np_mean demo_env vs = sum_list vs / real (length vs)"
  "grad_vector demo_env = forward_difference"
  "grad_array demo_env f t = ones_like t"
  "grad_leaves demo_env f' x' = map ones_like (fst (tree_flatten x'))"
  "transform_fn demo_env = apply_transforms"
  "biject_to demo_env c = (if c = ''positive'' then exp_transform else identity_transform)"
  "find_params demo_env k a = Inr (\<lambda>name. None)"
  by (simp_all add: demo_env_def)

lemma split_one_particle:
  "split_params one_particle one_particle_params = Inr ([(''sigma'', scalar 3)], [(''w'', w_leaf)])"
  by (simp add: split_params_def one_particle_def one_particle_params_def w_leaf_def)

lemma ravel_w: "ravel_pytree plain_env [(''w'', w_leaf)] 1 = Inr w_raveled"
  by (simp add: ravel_pytree_def tree_flatten_def ravel_list_def leaf_metadata_def
      reshape_infer_def reshape_def bindE_def w_raveled_def w_leaf_def
      plain_env_def prod32_def wrap32_def cumsum32_def concatenate_def row_of_def Let_def)

lemma unravel_w: "unravel_pytree plain_env w_raveled w_leaf = Inr [(''w'', w_view)]"
  by (simp add: unravel_pytree_def unravel_list_def unravel_leaf_def dynamic_slice_in_dim_def
      clamp_start_def reshape_def astype_def tree_unflatten_def bindE_def w_raveled_def
      w_leaf_def w_view_def plain_env_def Let_def enumerate_eq_zip)

lemma single_ljp_demo:
  "single_particle_ljp demo_env () params k = Inr (sum_list (concat (map (\<lambda>(k, v). data v) params)))"
  by (simp add: single_particle_ljp_def demo_env_fields upt_two)

lemma jfp_w_view:
  "jfp_fn demo_env one_particle () [Suc 0] [(''sigma'', scalar 3)] [(''w'', w_view)] = Inr loss5"
  by (simp add: jfp_fn_def particle_params_def rows_def bindE_def log_joint_prob_def
      single_ljp_demo one_particle_def dict_merge_def scalar_def w_view_def loss5_def Let_def)

lemma vsum_scale:
  "vsum (length g) (map (\<lambda>y. scale (c y) g) ys) = scale (sum_list (map c ys)) g"
proof (induction ys)
  case Nil
  show ?case by (simp add: vsum_def scale_def map_replicate_const)
next
  case (Cons y ys)
  have "vadd (scale (c y) g) (scale (sum_list (map c ys)) g) = scale (c y + sum_list (map c ys)) g"
    by (simp add: vadd_def scale_def zip_map_map zip_same_conv_map algebra_simps)
  with Cons show ?case by (simp add: vsum_def)
qed

lemma length_vsum:
  "(\<And>v. v \<in> set vs \<Longrightarrow> length v = m) \<Longrightarrow> length (vsum m vs) = m"
  by (induction vs) (auto simp: vsum_def vadd_def)

lemma rows_wf:
  assumes "wf_tensor t" and "shape t = n # rest"
  shows "rows t = Inr (map (\<lambda>i. \<lparr>shape = rest, dtype = dtype t,
                          data = take (prod_list rest) (drop (i * prod_list rest) (data t))\<rparr>)
                   [0 ..< n])"
    and "\<And>rs i. rows t = Inr rs \<Longrightarrow> i < n \<Longrightarrow> length (data (rs ! i)) = prod_list rest"
    and "\<And>rs. rows t = Inr rs \<Longrightarrow> length rs = n"
proof -
  show r: "rows t = Inr (map (\<lambda>i. \<lparr>shape = rest, dtype = dtype t,
                          data = take (prod_list rest) (drop (i * prod_list rest) (data t))\<rparr>)
                   [0 ..< n])"
    by (simp add: rows_def assms(2))
  show "length rs = n" if "rows t = Inr rs" for rs
    using that r by auto
  show "length (data (rs ! i)) = prod_list rest" if "rows t = Inr rs" and "i < n" for rs i
  proof -
    have "Suc i * prod_list rest \<le> n * prod_list rest"
      using that(2) by (intro mult_le_mono1) simp
    then have "i * prod_list rest + prod_list rest \<le> length (data t)"
      using assms by (simp add: wf_tensor_def)
    then show ?thesis using that r by auto
  qed
qed

lemma take_drop_concat_row:
  assumes "\<And>b. b \<in> set bs \<Longrightarrow> length b = m" and "i < length bs"
  shows "take m (drop (i * m) (concat bs)) = bs ! i"
proof -
  have "chunks (length bs) m (concat bs @ []) = bs"
    using assms(1) by (rule chunks_concat)
  then have "chunks (length bs) m (concat bs) ! i = bs ! i" by simp
  then show ?thesis using assms(2) by (simp add: chunks_nth)
qed

lemma row_of_vadd:
  assumes "\<And>b. b \<in> set as \<Longrightarrow> length b = m" and "\<And>b. b \<in> set rs \<Longrightarrow> length b = m"
    and "i < length as" and "i < length rs"
  shows "take m (drop (i * m) (vadd (concat as) (concat rs))) = vadd (as ! i) (rs ! i)"
proof -
  have "take m (drop (i * m) (vadd (concat as) (concat rs)))
      = vadd (take m (drop (i * m) (concat as))) (take m (drop (i * m) (concat rs)))"
    by (simp add: vadd_def take_map drop_map take_zip drop_zip)
  then show ?thesis
    using take_drop_concat_row [OF assms(1,3)] take_drop_concat_row [OF assms(2,4)] by simp
qed

text \<open>
  Lines 73 to 75 taken alone, on a matrix \<open>X\<close> of particles and a matrix \<open>G\<close> of scores
  given to them: when they return, row \<open>i\<close> of the result is the score in row \<open>i\<close> of \<open>G\<close>
  scaled by the sum over every particle \<open>j\<close>, \<open>i\<close> included, of the kernel at
  \<open>(x\<^sub>i, x\<^sub>j)\<close>, plus the sum over every \<open>j\<close> of the gradient of the kernel in its second
  argument at \<open>x\<^sub>j\<close>, the first held at \<open>x\<^sub>i\<close>.  Arithmetic is over the reals; a
  gradient has the length of its argument.
\<close>

lemma particle_grads_rows:
  assumes ret: "particle_grads env (log_kernel_fn env X) X G = Inr F"
    and wfX: "wf_tensor X" and wfG: "wf_tensor G"
    and gl: "\<forall>f y. length (grad_vector env f y) = length y"
  shows "\<exists>xs gs fs. rows X = Inr xs \<and> rows G = Inr gs \<and> rows F = Inr fs
           \<and> length gs = length xs \<and> length fs = length xs
           \<and> (\<forall>i < length xs. data (fs ! i)
                 = spec_particle_force env (log_kernel_fn env X) (map data xs)
                     (data (xs ! i)) (data (gs ! i)))"
proof -
  define k where "k = log_kernel_fn env X"
  from ret obtain a r where a: "attractive_force k X G = Inr a"
    and r: "repulsive_force env k X = Inr r" and s: "tensor_add a r = Inr F"
    by (auto simp: particle_grads_def bindE_def k_def split: sum.splits)
  from a obtain xs gs where xs: "rows X = Inr xs" and gs: "rows G = Inr gs"
    and len: "length gs = length xs"
    by (auto simp: attractive_force_def bindE_def split: sum.splits if_splits)
  from xs obtain n rest where shX: "shape X = n # rest"
    by (cases "shape X") (auto simp: rows_def)
  from gs obtain n' rest' where shG: "shape G = n' # rest'"
    by (cases "shape G") (auto simp: rows_def)
  note RX = rows_wf [OF wfX shX] and RG = rows_wf [OF wfG shG]
  have nx: "length xs = n" using RX(3) [OF xs] .
  have ng: "length gs = n'" using RG(3) [OF gs] .
  define A where "A = map (\<lambda>(x, x_ljp_grad).
                      vsum (length (data x_ljp_grad))
                        (map (\<lambda>y. scale (k (data x) (data y)) (data x_ljp_grad)) xs))
                   (zip xs gs)"
  define R where "R = map (\<lambda>x. vsum (length (data x))
                           (map (\<lambda>y. grad_vector env (k (data x)) (data y)) xs)) xs"
  have av: "a = stack rest' (dtype G) A"
    using a xs gs len by (simp add: attractive_force_def bindE_def A_def shG)
  have rv: "r = stack rest (dtype X) R"
    using r xs by (simp add: repulsive_force_def bindE_def R_def shX)
  have lA: "length A = n" by (simp add: A_def len nx)
  have lR: "length R = n" by (simp add: R_def nx)
  from s have sh: "shape a = shape r"
    and Fv: "F = \<lparr>shape = shape a, dtype = dtype a, data = vadd (data a) (data r)\<rparr>"
    by (auto simp: tensor_add_def split: if_splits)
  have rr: "rest' = rest" using sh by (simp add: av rv stack_def)
  define m where "m = prod_list rest"
  have lx: "\<And>i. i < n \<Longrightarrow> length (data (xs ! i)) = m"
    using RX(2) [OF xs] by (simp add: m_def)
  have lg: "\<And>i. i < n \<Longrightarrow> length (data (gs ! i)) = m"
    using RG(2) [OF gs] len nx ng by (simp add: m_def rr)
  have Ai: "A ! i = scale (sum_list (map (\<lambda>y. k (data (xs ! i)) (data y)) xs)) (data (gs ! i))"
    if "i < n" for i
    using that len nx by (simp add: A_def vsum_scale)
  have Ri: "R ! i = vsum (length (data (xs ! i)))
                (map (\<lambda>y. grad_vector env (k (data (xs ! i))) (data y)) xs)"
    if "i < n" for i
    using that nx by (simp add: R_def)
  have lAi: "\<And>b. b \<in> set A \<Longrightarrow> length b = m"
  proof -
    fix b assume "b \<in> set A"
    then obtain i where i: "i < n" and b: "b = A ! i"
      using lA by (metis in_set_conv_nth)
    show "length b = m" using lg [OF i] by (simp add: b Ai [OF i] scale_def)
  qed
  have lRi: "\<And>b. b \<in> set R \<Longrightarrow> length b = m"
  proof -
    fix b assume "b \<in> set R"
    then obtain i where i: "i < n" and b: "b = R ! i"
      using lR by (metis in_set_conv_nth)
    have lv: "\<And>v. v \<in> set (map (\<lambda>y. grad_vector env (k (data (xs ! i))) (data y)) xs) \<Longrightarrow> length v = m"
    proof -
      fix v assume "v \<in> set (map (\<lambda>y. grad_vector env (k (data (xs ! i))) (data y)) xs)"
      then obtain y where y: "y \<in> set xs" and v: "v = grad_vector env (k (data (xs ! i))) (data y)"
        by auto
      from y obtain j where "j < n" and "y = xs ! j" using nx by (metis in_set_conv_nth)
      then show "length v = m" using gl lx by (simp add: v)
    qed
    have "length (vsum m (map (\<lambda>y. grad_vector env (k (data (xs ! i))) (data y)) xs)) = m"
      by (rule length_vsum) (rule lv)
    then show "length b = m" by (simp add: b Ri [OF i] lx [OF i])
  qed
  have shF: "shape F = n # rest" by (simp add: Fv av stack_def lA rr)
  have dF: "data F = vadd (concat A) (concat R)" by (simp add: Fv av rv stack_def)
  define fs where "fs = map (\<lambda>i. \<lparr>shape = rest, dtype = dtype F,
                          data = take m (drop (i * m) (data F))\<rparr>) [0 ..< n]"
  have rF: "rows F = Inr fs" by (simp add: rows_def shF fs_def m_def)
  have lf: "length fs = length xs" by (simp add: fs_def nx)
  have "data (fs ! i) = spec_particle_force env k (map data xs) (data (xs ! i)) (data (gs ! i))"
    if "i < length xs" for i
  proof -
    have i: "i < n" using that nx by simp
    have "data (fs ! i) = take m (drop (i * m) (vadd (concat A) (concat R)))"
      using i by (simp add: fs_def dF)
    also have "\<dots> = vadd (A ! i) (R ! i)"
      using i lA lR by (intro row_of_vadd lAi lRi) simp_all
    finally show ?thesis
      by (simp add: Ai [OF i] Ri [OF i] spec_particle_force_def comp_def)
  qed
  with xs gs rF len lf show ?thesis unfolding k_def by blast
qed

lemma two_particle_forces:
  "particle_grads demo_env (log_kernel_fn demo_env two_particles) two_particles two_scores
   = Inr two_forces"
  by (simp add: particle_grads_def attractive_force_def repulsive_force_def rows_def bindE_def
      stack_def vsum_def vadd_def scale_def tensor_add_def demo_env_fields forward_difference_def
      two_particles_def two_scores_def two_forces_def upt_two)

text \<open>
  The value of \<open>jfp_fn\<close> has one entry per key, whatever the number of keys, and
  \<open>value_and_grad\<close> returns only for a function whose value is a scalar: the call on
  line 68 raises, whatever line 48 has bound, and so do lines 49 to 80; the unpacking on
  line 48 raises whenever it is reached.
\<close>

lemma jfp_fn_shape:
  "jfp_fn env self args rks mps gps = Inr v \<Longrightarrow> shape v = [length rks]"
  by (auto simp: jfp_fn_def bindE_def split: sum.splits)

lemma value_and_grad_Inr:
  "value_and_grad env f x = Inr r \<Longrightarrow> \<exists>v. f x = Inr v \<and> shape v = []"
  by (auto simp: value_and_grad_def bindE_def split: sum.splits if_splits)

lemma jax_grad_Inr:
  "jax_grad env f x = Inr r \<Longrightarrow> \<exists>v. f x = Inr v \<and> shape v = []"
  by (auto simp: jax_grad_def bindE_def split: sum.splits if_splits)

lemma not_Inr_is_Inl: "(\<And>r. m \<noteq> Inr r) \<Longrightarrow> \<exists>e. m = Inl e"
  by (cases m) auto

lemma line_68_raises:
  "\<exists>e. value_and_grad env
          (\<lambda>ps. bindE (call_constrain_fn self model_uparams) (\<lambda>mps.
                 bindE (unravel ps) (\<lambda>g.
                 bindE (call_constrain_fn self g) (\<lambda>gps.
                   jfp_fn env self args rng_keys mps gps))))
          guide_particles = Inl e"
proof (rule not_Inr_is_Inl)
  fix r
  show "value_and_grad env
          (\<lambda>ps. bindE (call_constrain_fn self model_uparams) (\<lambda>mps.
                 bindE (unravel ps) (\<lambda>g.
                 bindE (call_constrain_fn self g) (\<lambda>gps.
                   jfp_fn env self args rng_keys mps gps))))
          guide_particles \<noteq> Inr r"
  proof
    assume "value_and_grad env
          (\<lambda>ps. bindE (call_constrain_fn self model_uparams) (\<lambda>mps.
                 bindE (unravel ps) (\<lambda>g.
                 bindE (call_constrain_fn self g) (\<lambda>gps.
                   jfp_fn env self args rng_keys mps gps))))
          guide_particles = Inr r"
    from value_and_grad_Inr [OF this] obtain v mps gps where
      "jfp_fn env self args rng_keys mps gps = Inr v" and "shape v = []"
      by (auto simp: bindE_def split: sum.splits)
    with jfp_fn_shape show False by fastforce
  qed
qed

lemma loss_and_grads_body_raises:
  "\<exists>e. loss_and_grads_body env self rng_key model_uparams guide_uparams guide_particles
          unravel args = Inl e"
proof -
  from line_68_raises [of env self model_uparams unravel args
      "split env rng_key (num_stein_particles self)" guide_particles]
  obtain e where "value_and_grad env
          (\<lambda>ps. bindE (call_constrain_fn self model_uparams) (\<lambda>mps.
                 bindE (unravel ps) (\<lambda>g.
                 bindE (call_constrain_fn self g) (\<lambda>gps.
                   jfp_fn env self args (split env rng_key (num_stein_particles self)) mps gps))))
          guide_particles = Inl e" by blast
  then have "loss_and_grads_body env self rng_key model_uparams guide_uparams guide_particles
          unravel args = Inl e"
    by (simp add: loss_and_grads_body_def Let_def bindE_def)
  then show ?thesis by blast
qed

lemma svgd_loss_and_grads_raises:
  "\<exists>e. svgd_loss_and_grads env self rng_key unconstr_params args = Inl e"
  by (auto simp: svgd_loss_and_grads_def bindE_def ravel_pytree_result_def split: sum.splits)

lemma svgd_loss_and_grads_unpack:
  assumes "split_params self unconstr_params = Inr (model_uparams, guide_uparams)"
    and "ravel_pytree (np env) guide_uparams 1 = Inr rv"
  shows "svgd_loss_and_grads env self rng_key unconstr_params args = Inl UnpackError"
  using assms by (simp add: svgd_loss_and_grads_def bindE_def ravel_pytree_result_def)

lemma loss_and_grads_one_particle:
  "svgd_loss_and_grads demo_env one_particle 0 one_particle_params () = Inl UnpackError"
proof -
  have "ravel_pytree (np demo_env) [(''w'', w_leaf)] 1 = Inr w_raveled"
    unfolding demo_env_fields by (rule ravel_w)
  from svgd_loss_and_grads_unpack [OF split_one_particle this] show ?thesis .
qed

lemma body_one_particle:
  "loss_and_grads_body demo_env one_particle 0 [(''sigma'', scalar 3)] [(''w'', w_leaf)]
     w_leaf (unravel_pytree plain_env w_raveled) () = Inl TypeError"
proof -
  have keys: "split demo_env 0 (num_stein_particles one_particle) = [Suc 0]"
    by (simp add: demo_env_fields one_particle_def)
  have c: "\<And>p. call_constrain_fn one_particle p = Inr p"
    by (simp add: call_constrain_fn_def one_particle_def)
  have v: "value_and_grad demo_env
           (\<lambda>ps. bindE (call_constrain_fn one_particle [(''sigma'', scalar 3)]) (\<lambda>mps.
                  bindE (unravel_pytree plain_env w_raveled ps) (\<lambda>u.
                  bindE (call_constrain_fn one_particle u) (\<lambda>gps.
                    jfp_fn demo_env one_particle ()
                      (split demo_env 0 (num_stein_particles one_particle)) mps gps))))
           w_leaf
         = Inl TypeError"
    by (simp add: keys c value_and_grad_def bindE_def unravel_w jfp_w_view loss5_def)
  show ?thesis
    unfolding loss_and_grads_body_def Let_def v by (simp add: bindE_def)
qed

text \<open>
  Claim C1 on the code.  Lines 73 to 75 compute the force of the specification from
  the scores handed to them (\<open>particle_grads_rows\<close> above), but no call of
  \<open>_svgd_loss_and_grads\<close> reaches them: for every object, key, parameter dictionary and
  arguments the method raises, and so do lines 49 to 80 for everything that line 48
  could have bound.
\<close>

theorem forces_are_never_computed:
  "(\<exists>e. svgd_loss_and_grads env self rng_key unconstr_params args = Inl e)
   \<and> (\<exists>e. loss_and_grads_body env self rng_key model_uparams guide_uparams guide_particles
            unravel args = Inl e)"
proof -
  have whole: "\<exists>e. svgd_loss_and_grads env self rng_key unconstr_params args = Inl e"
    by (rule svgd_loss_and_grads_raises)
  from line_68_raises [of env self model_uparams unravel args
      "split env rng_key (num_stein_particles self)" guide_particles]
  obtain e where "value_and_grad env
          (\<lambda>ps. bindE (call_constrain_fn self model_uparams) (\<lambda>mps.
                 bindE (unravel ps) (\<lambda>g.
                 bindE (call_constrain_fn self g) (\<lambda>gps.
                   jfp_fn env self args (split env rng_key (num_stein_particles self)) mps gps))))
          guide_particles = Inl e" by blast
  then have "loss_and_grads_body env self rng_key model_uparams guide_uparams guide_particles
          unravel args = Inl e"
    by (simp add: loss_and_grads_body_def Let_def bindE_def)
  then have lines: "\<exists>e. loss_and_grads_body env self rng_key model_uparams guide_uparams
          guide_particles unravel args = Inl e" by blast
  from whole lines show ?thesis by (rule conjI)
qed

text \<open>
  Claim C9 on the code.  On an initialised object, lines 45 and 46 split any parameter
  dictionary into two dictionaries that share no item and no key and together hold
  every item and every key of it; but no gradient dictionary is returned: the method
  raises on every call.
\<close>

theorem keys_are_partitioned_and_no_gradients_returned:
  "(\<forall>names. guide_param_names self = Some names \<longrightarrow>
      (\<exists>model_uparams guide_uparams.
         split_params self unconstr_params = Inr (model_uparams, guide_uparams)
       \<and> set model_uparams \<inter> set guide_uparams = {}
       \<and> set model_uparams \<union> set guide_uparams = set unconstr_params
       \<and> fst ` set model_uparams \<inter> fst ` set guide_uparams = {}
       \<and> fst ` set model_uparams \<union> fst ` set guide_uparams = fst ` set unconstr_params))
   \<and> (\<exists>e. svgd_loss_and_grads env self rng_key unconstr_params args = Inl e)"
proof (intro conjI allI impI)
  fix names
  assume "guide_param_names self = Some names"
  then have sp: "split_params self unconstr_params
      = Inr (filter (\<lambda>(p, v). p \<notin> names) unconstr_params,
             filter (\<lambda>(p, v). p \<in> names) unconstr_params)"
    by (simp add: split_params_def)
  from split_params_partition [OF sp] sp
  show "\<exists>model_uparams guide_uparams.
          split_params self unconstr_params = Inr (model_uparams, guide_uparams)
        \<and> set model_uparams \<inter> set guide_uparams = {}
        \<and> set model_uparams \<union> set guide_uparams = set unconstr_params
        \<and> fst ` set model_uparams \<inter> fst ` set guide_uparams = {}
        \<and> fst ` set model_uparams \<union> fst ` set guide_uparams = fst ` set unconstr_params"
    by blast
next
  show "\<exists>e. svgd_loss_and_grads env self rng_key unconstr_params args = Inl e"
    by (rule svgd_loss_and_grads_raises)
qed

text \<open>Claim C9 at the one-particle object: the keys \<open>w\<close> and \<open>sigma\<close> are split, and
  the call raises on line 48.\<close>

theorem keys_are_partitioned_and_no_gradients_returned_witness:
  "guide_param_names one_particle = Some {''w''}
   \<and> split_params one_particle one_particle_params = Inr ([(''sigma'', scalar 3)], [(''w'', w_leaf)])
   \<and> (\<exists>model_uparams guide_uparams.
          split_params one_particle one_particle_params = Inr (model_uparams, guide_uparams)
        \<and> set model_uparams \<inter> set guide_uparams = {}
        \<and> set model_uparams \<union> set guide_uparams = set one_particle_params
        \<and> fst ` set model_uparams \<inter> fst ` set guide_uparams = {}
        \<and> fst ` set model_uparams \<union> fst ` set guide_uparams = fst ` set one_particle_params)
   \<and> (\<exists>e. svgd_loss_and_grads demo_env one_particle 0 one_particle_params () = Inl e)
   \<and> svgd_loss_and_grads demo_env one_particle 0 one_particle_params () = Inl UnpackError"
proof -
  have g: "guide_param_names one_particle = Some {''w''}" by (simp add: one_particle_def)
  note T = keys_are_partitioned_and_no_gradients_returned
    [of one_particle one_particle_params demo_env 0 "()"]
  note P = T [THEN conjunct1, THEN spec, THEN mp, OF g]
  note K = T [THEN conjunct2]
  show ?thesis
    by (intro conjI) (rule g split_one_particle P K loss_and_grads_one_particle)+
qed

section \<open>Properties of the step orchestrator\<close>

lemma upt_three: "[0 ..< 3] = [0, 1, 2]"
  by (simp add: numeral_3_eq_3)

lemma demo_traces:
  "get_trace_model demo_env k a = Inr [
        \<lparr>site_name = ''sigma'', site_type = ''param'', site_value = scalar 1,
         site_constraint = Some ''positive''\<rparr>,
        \<lparr>site_name = ''obs'', site_type = ''sample'', site_value = scalar 0,
         site_constraint = None\<rparr>]"
  "get_trace_guide demo_env k a = Inr [
        \<lparr>site_name = ''auto_loc'', site_type = ''param'',
         site_value = \<lparr>shape = [1, 1], dtype = ''float32'', data = [0]\<rparr>,
         site_constraint = None\<rparr>]"
  by (simp_all add: demo_env_def)

lemma init_I:
  assumes "split env rng_key 3 = [rng_key1, model_seed, guide_seed]"
    and "get_trace_guide env guide_seed args = Inr guide_trace"
    and "get_trace_model env model_seed args = Inr model_trace"
    and "split env rng_key1 (1 + num_stein_particles self) = [rng_key2, particle_seeds]"
    and "find_params env particle_seeds args = Inr init_params"
    and "foldl (init_site env init_params model_trace) ([], [], {}) (model_trace @ guide_trace)
         = (params, inv_transforms, names)"
  shows "init env self rng_key args
         = Inr (self\<lparr>guide_param_names := Some names,
                     constrain_fn := Some (transform_fn env inv_transforms)\<rparr>,
                \<lparr>state_optim_state = optim_init env params, state_rng_key = rng_key2\<rparr>)"
  using assms by (simp add: init_def bindE_def)

lemma init_demo: "init demo_env fresh_svgd 0 () = Inr (initialised_svgd, initial_state)"
proof -
  have s3: "split demo_env 0 3 = [1, 2, 3]"
    by (simp add: demo_env_fields upt_three)
  have s2: "split demo_env 1 (1 + num_stein_particles fresh_svgd) = [3, 4]"
    by (simp add: demo_env_fields fresh_svgd_def upt_two)
  have names: "set_update {} ''auto_loc'' = {''a'', ''u'', ''t'', ''o'', ''_'', ''l'', ''c''}"
    by (auto simp: set_update_def)
  have f: "foldl (init_site demo_env (\<lambda>name. None) [
        \<lparr>site_name = ''sigma'', site_type = ''param'', site_value = scalar 1,
         site_constraint = Some ''positive''\<rparr>,
        \<lparr>site_name = ''obs'', site_type = ''sample'', site_value = scalar 0,
         site_constraint = None\<rparr>]) ([], [], {})
      ([\<lparr>site_name = ''sigma'', site_type = ''param'', site_value = scalar 1,
         site_constraint = Some ''positive''\<rparr>,
        \<lparr>site_name = ''obs'', site_type = ''sample'', site_value = scalar 0,
         site_constraint = None\<rparr>] @
       [\<lparr>site_name = ''auto_loc'', site_type = ''param'',
         site_value = \<lparr>shape = [1, 1], dtype = ''float32'', data = [0]\<rparr>,
         site_constraint = None\<rparr>])
      = (initial_params, demo_transforms, {''a'', ''u'', ''t'', ''o'', ''_'', ''l'', ''c''})"
    by (simp add: init_site_def demo_env_fields names exp_transform_def identity_transform_def
        scalar_def initial_params_def demo_transforms_def auto_loc_leaf_def Let_def)
  have "init demo_env fresh_svgd 0 ()
      = Inr (fresh_svgd\<lparr>guide_param_names := Some {''a'', ''u'', ''t'', ''o'', ''_'', ''l'', ''c''},
                     constrain_fn := Some (transform_fn demo_env demo_transforms)\<rparr>,
             \<lparr>state_optim_state = optim_init demo_env initial_params, state_rng_key = 3\<rparr>)"
    by (rule init_I [OF s3 demo_traces(2) demo_traces(1) s2 demo_env_fields(14) f])
  then show ?thesis
    by (simp add: fresh_svgd_def initialised_svgd_def initial_state_def demo_env_fields)
qed

lemma ravel_empty: "ravel_pytree env [] 1 = Inr empty_raveled"
  by (simp add: ravel_pytree_def tree_flatten_def ravel_list_def bindE_def empty_raveled_def
      cumsum32_def wrap32_def)

lemma split_initialised:
  "split_params initialised_svgd [(''sigma'', t), (''auto_loc'', u)]
   = Inr ([(''sigma'', t), (''auto_loc'', u)], [])"
  by (simp add: split_params_def initialised_svgd_def)

lemma constrain_initialised:
  "call_constrain_fn initialised_svgd [(''sigma'', scalar s), (''auto_loc'', auto_loc_leaf)]
   = Inr [(''sigma'', scalar (exp s)), (''auto_loc'', auto_loc_leaf)]"
  "call_constrain_fn initialised_svgd [] = Inr []"
  by (simp_all add: call_constrain_fn_def initialised_svgd_def apply_transforms_def
      demo_transforms_def exp_transform_def identity_transform_def scalar_def)

lemma split_two_demo: "split demo_env k 2 = [2 * k + 1, 2 * k + 2]"
  by (simp add: demo_env_fields upt_two)

lemma get_params_initialised:
  "get_params demo_env initialised_svgd initial_state
   = Inr [(''sigma'', scalar 1), (''auto_loc'', auto_loc_leaf)]"
  using constrain_initialised(1) [of 0]
  by (simp add: get_params_def demo_env_fields initial_state_def initial_params_def)

lemma update_arguments_initialised:
  "update_arguments demo_env initial_state
   = Inr (7, 8, [(''sigma'', scalar 0), (''auto_loc'', auto_loc_leaf)])"
proof -
  have s: "split demo_env (state_rng_key initial_state) 2 = [7, 8]"
    by (simp add: split_two_demo initial_state_def)
  show ?thesis
    unfolding update_arguments_def s list.case
    by (simp add: demo_env_fields initial_state_def initial_params_def)
qed

lemma evaluate_arguments_initialised:
  "evaluate_arguments demo_env initialised_svgd initial_state
   = Inr (8, [(''sigma'', scalar 1), (''auto_loc'', auto_loc_leaf)])"
proof -
  have s: "split demo_env (state_rng_key initial_state) 2 = [7, 8]"
    by (simp add: split_two_demo initial_state_def)
  show ?thesis
    unfolding evaluate_arguments_def s list.case get_params_initialised bindE_def sum.case ..
qed

lemma loss_and_grads_initialised:
  "svgd_loss_and_grads demo_env initialised_svgd k
     [(''sigma'', t), (''auto_loc'', u)] () = Inl UnpackError"
  by (rule svgd_loss_and_grads_unpack [OF split_initialised ravel_empty])

lemma update_initialised:
  "update demo_env initialised_svgd initial_state () = Inl UnpackError"
  by (simp add: update_def update_arguments_initialised bindE_def loss_and_grads_initialised)

lemma evaluate_initialised:
  "evaluate demo_env initialised_svgd initial_state () = Inl UnpackError"
  by (simp add: evaluate_def evaluate_arguments_initialised bindE_def loss_and_grads_initialised)

lemma evaluate_passes_constrained_params:
  assumes "update_arguments env state = Inr (k', k_step, p_u)"
  shows "evaluate_arguments env self state
         = bindE (call_constrain_fn self p_u) (\<lambda>p_e. Inr (k_step, p_e))"
  using assms
  by (auto simp: update_arguments_def evaluate_arguments_def get_params_def Let_def
      split: list.splits)

text \<open>
  Claim C3 on the code.  From the state that \<open>init\<close> returns, \<open>update\<close> and \<open>evaluate\<close>
  split the key alike and both pass key 8 to the force calculator; \<open>update\<close> passes it
  the optimizer's unconstrained parameters (\<open>sigma = 0\<close>), \<open>evaluate\<close> the constrained
  ones from \<open>get_params\<close> (\<open>sigma = exp 0 = 1\<close>).  Line 68 constrains what it is given
  once more: the log-joint is asked for at \<open>sigma = 1\<close> in \<open>update\<close> and at
  \<open>sigma = exp 1\<close> in \<open>evaluate\<close>.
\<close>

theorem evaluate_passes_constrained_parameters:
  "init demo_env fresh_svgd 0 () = Inr (initialised_svgd, initial_state)
   \<and> update_arguments demo_env initial_state
       = Inr (7, 8, [(''sigma'', scalar 0), (''auto_loc'', auto_loc_leaf)])
   \<and> evaluate_arguments demo_env initialised_svgd initial_state
       = Inr (8, [(''sigma'', scalar 1), (''auto_loc'', auto_loc_leaf)])
   \<and> scalar 1 \<noteq> scalar 0
   \<and> call_constrain_fn initialised_svgd [(''sigma'', scalar 0), (''auto_loc'', auto_loc_leaf)]
       = Inr [(''sigma'', scalar 1), (''auto_loc'', auto_loc_leaf)]
   \<and> call_constrain_fn initialised_svgd [(''sigma'', scalar 1), (''auto_loc'', auto_loc_leaf)]
       = Inr [(''sigma'', scalar (exp 1)), (''auto_loc'', auto_loc_leaf)]
   \<and> scalar (exp 1) \<noteq> scalar 1"
proof -
  have n: "scalar 1 \<noteq> scalar 0" by (simp add: scalar_def)
  have m: "scalar (exp 1) \<noteq> scalar 1" by (simp add: scalar_def)
  have c0: "call_constrain_fn initialised_svgd [(''sigma'', scalar 0), (''auto_loc'', auto_loc_leaf)]
       = Inr [(''sigma'', scalar 1), (''auto_loc'', auto_loc_leaf)]"
    using constrain_initialised(1) [of 0] by simp
  from init_demo update_arguments_initialised evaluate_arguments_initialised n c0
    constrain_initialised(1) [of 1] m
  show ?thesis by blast
qed

text \<open>
  Whatever the traces, every element of \<open>guide_param_names\<close> after \<open>init\<close> is a string
  of one character, so a parameter whose name is longer is never on the guide's side of
  the split.
\<close>

lemma init_site_single_characters:
  assumes "\<forall>n \<in> names. length n = 1"
    and "init_site env init_params model_trace (params, inv_transforms, names) site
         = (params', inv_transforms', names')"
  shows "\<forall>n \<in> names'. length n = 1"
  using assms
  by (auto simp: init_site_def set_update_def Let_def split: if_splits)

lemma foldl_init_site_single_characters:
  assumes "\<forall>n \<in> names. length n = 1"
    and "foldl (init_site env init_params model_trace) (params, inv_transforms, names) sites
         = (params', inv_transforms', names')"
  shows "\<forall>n \<in> names'. length n = 1"
  using assms
proof (induction sites arbitrary: params inv_transforms names)
  case Nil
  then show ?case by simp
next
  case (Cons site sites)
  obtain p t ns where s: "init_site env init_params model_trace (params, inv_transforms, names) site
      = (p, t, ns)"
    by (metis prod_cases3)
  have "\<forall>n \<in> ns. length n = 1"
    using init_site_single_characters [OF Cons.prems(1) s] .
  moreover have "foldl (init_site env init_params model_trace) (p, t, ns) sites
      = (params', inv_transforms', names')"
    using Cons.prems(2) by (simp add: s)
  ultimately show ?case by (rule Cons.IH)
qed

lemma init_guide_param_names_single_characters:
  assumes "init env self rng_key args = Inr (self', state)"
  shows "\<exists>names. guide_param_names self' = Some names \<and> (\<forall>n \<in> names. length n = 1)"
proof -
  from assms obtain init_params model_trace guide_trace params inv_transforms names where
    f: "foldl (init_site env init_params model_trace) ([], [], {}) (model_trace @ guide_trace)
        = (params, inv_transforms, names)"
    and s: "self' = self\<lparr>guide_param_names := Some names,
                          constrain_fn := Some (transform_fn env inv_transforms)\<rparr>"
    by (auto simp: init_def bindE_def split: list.splits sum.splits prod.splits)
  have "\<forall>n \<in> names. length n = 1"
    by (rule foldl_init_site_single_characters [OF _ f]) simp
  then show ?thesis by (simp add: s)
qed

lemma longer_names_are_model_owned:
  assumes "init env self rng_key args = Inr (self', state)"
    and "split_params self' unconstr_params = Inr (model_uparams, guide_uparams)"
  shows "\<forall>(p, v) \<in> set guide_uparams. length p = 1"
proof -
  from init_guide_param_names_single_characters [OF assms(1)] obtain names where
    "guide_param_names self' = Some names" and "\<forall>n \<in> names. length n = 1" by blast
  with assms(2) show ?thesis by (auto simp: split_params_def)
qed

text \<open>
  Claim C4 on the code.  The guide's parameter site \<open>auto_loc\<close> is not in the model's
  trace, whose sites are \<open>sigma\<close> and \<open>obs\<close>.  After \<open>init\<close>, \<open>guide_param_names\<close> holds
  the characters of \<open>auto_loc\<close> and not the name, and \<open>_svgd_loss_and_grads\<close> splits the
  parameters with \<open>auto_loc\<close> on the model's side and nothing on the guide's.
\<close>

theorem guide_site_classified_model_owned:
  "init demo_env fresh_svgd 0 () = Inr (initialised_svgd, initial_state)
   \<and> get_trace_model demo_env 2 () = Inr [
        \<lparr>site_name = ''sigma'', site_type = ''param'', site_value = scalar 1,
         site_constraint = Some ''positive''\<rparr>,
        \<lparr>site_name = ''obs'', site_type = ''sample'', site_value = scalar 0,
         site_constraint = None\<rparr>]
   \<and> guide_param_names initialised_svgd = Some {''a'', ''u'', ''t'', ''o'', ''_'', ''l'', ''c''}
   \<and> ''auto_loc'' \<notin> {''a'', ''u'', ''t'', ''o'', ''_'', ''l'', ''c''}
   \<and> split_params initialised_svgd (optim_get_params demo_env (state_optim_state initial_state))
       = Inr ([(''sigma'', scalar 0), (''auto_loc'', auto_loc_leaf)], [])"
proof -
  have g: "guide_param_names initialised_svgd = Some {''a'', ''u'', ''t'', ''o'', ''_'', ''l'', ''c''}"
    by (simp add: initialised_svgd_def)
  have n: "''auto_loc'' \<notin> {''a'', ''u'', ''t'', ''o'', ''_'', ''l'', ''c''}" by simp
  have s: "split_params initialised_svgd (optim_get_params demo_env (state_optim_state initial_state))
       = Inr ([(''sigma'', scalar 0), (''auto_loc'', auto_loc_leaf)], [])"
    using split_initialised [of "scalar 0" auto_loc_leaf]
    by (simp add: demo_env_fields initial_state_def initial_params_def)
  from init_demo demo_traces(1) [of 2 "()"] g n s show ?thesis by blast
qed

lemma init_unpack_error:
  assumes "split env rng_key 3 = [rng_key1, model_seed, guide_seed]"
    and "get_trace_guide env guide_seed args = Inr guide_trace"
    and "get_trace_model env model_seed args = Inr model_trace"
    and "length (split env rng_key1 (1 + num_stein_particles self)) \<noteq> 2"
  shows "init env self rng_key args = Inl UnpackError"
proof -
  have "(case split env rng_key1 (1 + num_stein_particles self) of
           [rng_key2, particle_seeds] \<Rightarrow> f rng_key2 particle_seeds
         | _ \<Rightarrow> Inl UnpackError) = Inl UnpackError" for f :: "'a \<Rightarrow> 'a \<Rightarrow> error + 'z"
    using assms(4) by (auto split: list.splits)
  then show ?thesis
    by (simp add: init_def assms(1,2,3) bindE_def)
qed

text \<open>
  Claim C6 on the code.  With the default of ten particles the second split returns
  eleven keys, which line 97 unpacks into two names: \<open>init\<close> raises, and no
  per-particle key is handed to the particle initialiser.
\<close>

theorem init_with_ten_particles_raises:
  "svgd_new True 10 2 = Inr ten_particles
   \<and> split demo_env 0 3 = [1, 2, 3]
   \<and> length (split demo_env 1 (1 + num_stein_particles ten_particles)) = 11
   \<and> init demo_env ten_particles 0 () = Inl UnpackError"
proof -
  have n: "svgd_new True 10 2 = Inr ten_particles"
    by (simp add: svgd_new_def ten_particles_def)
  have s3: "split demo_env 0 3 = [1, 2, 3]"
    by (simp add: demo_env_fields upt_three)
  have l: "length (split demo_env 1 (1 + num_stein_particles ten_particles)) = 11"
    by (simp add: demo_env_fields ten_particles_def)
  have l2: "length (split demo_env 1 (1 + num_stein_particles ten_particles)) \<noteq> 2"
    unfolding l by simp
  have "init demo_env ten_particles 0 () = Inl UnpackError"
    by (rule init_unpack_error [OF s3 demo_traces(2) demo_traces(1) l2])
  with n s3 l show ?thesis by blast
qed

lemma jfp_two_particles:
  "jfp_fn demo_env one_particle () [1, 2] [(''sigma'', scalar 3)] [(''w'', w_two)]
   = Inr \<lparr>shape = [2], dtype = ''float32'', data = [5, 7]\<rparr>"
  by (simp add: jfp_fn_def particle_params_def rows_def bindE_def log_joint_prob_def
      single_ljp_demo one_particle_def dict_merge_def scalar_def w_two_def upt_two Let_def)

text \<open>
  Claim C2 on the code.  \<open>jfp_fn\<close> returns one log-joint per particle and takes no mean
  over the particles: for two particles with log-joints 5 and 7 it returns the vector
  \<open>(5, 7)\<close>, and 6 appears nowhere; for one particle it returns a vector of one entry.
  That vector is the value \<open>value_and_grad\<close> is asked for on line 68, which raises for
  a value that is not a scalar: lines 49 to 80 raise, on the one particle and its
  unravel function.  The method itself raises before, on line 48, and with it \<open>update\<close>
  and \<open>evaluate\<close> after \<open>init\<close>: no loss is returned.
\<close>

theorem log_joints_are_not_averaged_over_particles:
  "jfp_fn demo_env one_particle () [1, 2] [(''sigma'', scalar 3)] [(''w'', w_two)]
     = Inr \<lparr>shape = [2], dtype = ''float32'', data = [5, 7]\<rparr>
   \<and> np_mean demo_env [5, 7] = 6
   \<and> jfp_fn demo_env one_particle () [1] [(''sigma'', scalar 3)] [(''w'', w_view)]
     = Inr \<lparr>shape = [1], dtype = ''float32'', data = [5]\<rparr>
   \<and> loss_and_grads_body demo_env one_particle 0 [(''sigma'', scalar 3)] [(''w'', w_leaf)]
       w_leaf (unravel_pytree plain_env w_raveled) () = Inl TypeError
   \<and> svgd_loss_and_grads demo_env one_particle 0 one_particle_params () = Inl UnpackError
   \<and> init demo_env fresh_svgd 0 () = Inr (initialised_svgd, initial_state)
   \<and> update demo_env initialised_svgd initial_state () = Inl UnpackError
   \<and> evaluate demo_env initialised_svgd initial_state () = Inl UnpackError"
proof -
  have m: "np_mean demo_env [5, 7] = 6" by (simp add: demo_env_fields)
  have j: "jfp_fn demo_env one_particle () [1] [(''sigma'', scalar 3)] [(''w'', w_view)]
     = Inr \<lparr>shape = [1], dtype = ''float32'', data = [5]\<rparr>"
    using jfp_w_view by (simp add: loss5_def)
  from jfp_two_particles m j body_one_particle loss_and_grads_one_particle init_demo
    update_initialised evaluate_initialised
  show ?thesis by blast
qed





end
